theory Spec2Isabelle
  imports Complex_Main "HOL-Library.Multiset"
begin

section \<open>JavaScript numbers\<close>

text \<open>
  A JavaScript number is modelled by the real value it stands for: \<open>NaN\<close>, the two
  infinities, or a finite rational. The two zeros are one value \<open>Fin 0\<close>: the program
  only compares numbers, tests them for truthiness and prints them with \<open>toFixed\<close>, and
  none of these tells \<open>-0\<close> from \<open>+0\<close>.
\<close>

datatype jsnum = NaN | NegInf | Fin rat | PosInf

text \<open>\<open>a <= b\<close> on numbers: false as soon as one side is \<open>NaN\<close>.\<close>

fun js_le :: "jsnum \<Rightarrow> jsnum \<Rightarrow> bool" where
  "js_le NaN _ = False"
| "js_le _ NaN = False"
| "js_le NegInf _ = True"
| "js_le _ PosInf = True"
| "js_le (Fin a) (Fin b) = (a \<le> b)"
| "js_le (Fin a) NegInf = False"
| "js_le PosInf _ = False"

text \<open>\<open>a >= b\<close> on numbers.\<close>

definition js_ge :: "jsnum \<Rightarrow> jsnum \<Rightarrow> bool" where
  "js_ge a b = js_le b a"

text \<open>\<open>a < b\<close> on numbers.\<close>

fun js_lt :: "jsnum \<Rightarrow> jsnum \<Rightarrow> bool" where
  "js_lt NaN _ = False"
| "js_lt _ NaN = False"
| "js_lt PosInf _ = False"
| "js_lt _ NegInf = False"
| "js_lt (Fin a) (Fin b) = (a < b)"
| "js_lt NegInf _ = True"
| "js_lt (Fin a) PosInf = True"

text \<open>
  \<open>a - b\<close>. On finite operands the model keeps the exact difference; the binary64
  difference has the same sign (it is zero only for equal operands and may overflow to
  an infinity of that sign), and the program uses the difference only as the result of
  a sort comparator, where nothing but the sign is read.
\<close>

fun js_sub :: "jsnum \<Rightarrow> jsnum \<Rightarrow> jsnum" where
  "js_sub NaN _ = NaN"
| "js_sub _ NaN = NaN"
| "js_sub PosInf PosInf = NaN"
| "js_sub NegInf NegInf = NaN"
| "js_sub PosInf _ = PosInf"
| "js_sub NegInf _ = NegInf"
| "js_sub (Fin a) PosInf = NegInf"
| "js_sub (Fin a) NegInf = PosInf"
| "js_sub (Fin a) (Fin b) = Fin (a - b)"

text \<open>ToBoolean on a number: \<open>NaN\<close> and zero are falsy.\<close>

fun truthy :: "jsnum \<Rightarrow> bool" where
  "truthy NaN = False"
| "truthy (Fin q) = (q \<noteq> 0)"
| "truthy _ = True"

text \<open>\<open>a || b\<close> on numbers.\<close>

definition logical_or :: "jsnum \<Rightarrow> jsnum \<Rightarrow> jsnum" where
  "logical_or a b = (if truthy a then a else b)"

subsection \<open>Rounding to binary64\<close>

definition pow2 :: "int \<Rightarrow> rat" where
  "pow2 k = (if 0 \<le> k then 2 ^ nat k else 1 / 2 ^ nat (- k))"

text \<open>The number of binary digits of a positive integer.\<close>

function bitlen :: "int \<Rightarrow> int" where
  "bitlen n = (if n \<le> 0 then 0 else 1 + bitlen (n div 2))"
  by pat_completeness auto
termination
  by (relation "measure nat") auto

declare bitlen.simps [simp del]

text \<open>For \<open>q > 0\<close>, the exponent \<open>e\<close> with \<open>2^e <= q < 2^(e+1)\<close>.\<close>

definition binade :: "rat \<Rightarrow> int" where
  "binade q =
     (let (a, b) = quotient_of q;
          e = bitlen a - bitlen b
      in if pow2 e \<le> q then e else e - 1)"

text \<open>The nearest integer, ties to even.\<close>

definition round_half_even :: "rat \<Rightarrow> int" where
  "round_half_even q =
     (let f = \<lfloor>q\<rfloor>; r = q - of_int f
      in if r < 1 / 2 then f else if 1 / 2 < r then f + 1
         else if even f then f else f + 1)"

text \<open>
  The binary64 value nearest to a rational (round to nearest, ties to even; 53 significant
  bits, exponents from -1022, gradual underflow, overflow to an infinity).
\<close>

definition round_binary64 :: "rat \<Rightarrow> jsnum" where
  "round_binary64 q =
     (if q = 0 then Fin 0
      else let a = \<bar>q\<bar>;
               e = max (binade a) (- 1022);
               u = pow2 (e - 52);
               r = of_int (round_half_even (a / u)) * u
           in if pow2 1024 \<le> r then (if q < 0 then NegInf else PosInf)
              else Fin (if q < 0 then - r else r))"

subsection \<open>parseFloat\<close>

text \<open>
  Strings are lists of 8-bit characters, so the white space of the model is the part of
  ECMAScript's white space and line terminators below U+0100.
\<close>

definition is_whitespace :: "char \<Rightarrow> bool" where
  "is_whitespace c = ((of_char c :: nat) \<in> {9, 10, 11, 12, 13, 32, 160})"

definition is_digit :: "char \<Rightarrow> bool" where
  "is_digit c = (48 \<le> (of_char c :: nat) \<and> (of_char c :: nat) \<le> 57)"

definition digit_value :: "char \<Rightarrow> int" where
  "digit_value c = of_char c - 48"

definition digits_value :: "string \<Rightarrow> int" where
  "digits_value ds = foldl (\<lambda>n c. 10 * n + digit_value c) 0 ds"

text \<open>An optional sign: whether it is a minus, and the rest of the string.\<close>

fun take_sign :: "string \<Rightarrow> bool \<times> string" where
  "take_sign [] = (False, [])"
| "take_sign (c # r) =
     (if c = CHR ''-'' then (True, r) else if c = CHR ''+'' then (False, r)
      else (False, c # r))"

text \<open>The exponent part that starts a string, 0 when there is none.\<close>

fun exponent_part :: "string \<Rightarrow> int" where
  "exponent_part [] = 0"
| "exponent_part (c # r) =
     (if c = CHR ''e'' \<or> c = CHR ''E''
      then (let (eneg, r') = take_sign r; ed = takeWhile is_digit r'
            in if ed = [] then 0
               else if eneg then - digits_value ed else digits_value ed)
      else 0)"

definition pow10 :: "int \<Rightarrow> rat" where
  "pow10 k = (if 0 \<le> k then 10 ^ nat k else 1 / 10 ^ nat (- k))"

text \<open>
  \<open>parseFloat\<close>: skip leading white space, read the longest prefix that is a decimal
  literal (optional sign, then \<open>Infinity\<close> or digits with an optional fraction and an
  optional exponent), ignore what follows; \<open>NaN\<close> when there is no such prefix.
\<close>

definition parseFloat :: "string \<Rightarrow> jsnum" where
  "parseFloat s =
     (let (neg, u) = take_sign (dropWhile is_whitespace s)
      in if take 8 u = ''Infinity'' then (if neg then NegInf else PosInf)
         else
           let ip = takeWhile is_digit u;
               r1 = dropWhile is_digit u;
               dot = (r1 \<noteq> [] \<and> hd r1 = CHR ''.'');
               fp = (if dot then takeWhile is_digit (tl r1) else []);
               r2 = (if dot then dropWhile is_digit (tl r1) else r1)
           in if ip = [] \<and> fp = [] then NaN
              else
                let m = of_int (digits_value (ip @ fp)) *
                        pow10 (exponent_part r2 - int (length fp))
                in round_binary64 (if neg then - m else m))"

subsection \<open>Number.prototype.toFixed\<close>

definition digit_char :: "int \<Rightarrow> char" where
  "digit_char d = char_of (48 + nat d)"

text \<open>The decimal digits of a non-negative integer.\<close>

function decimal :: "int \<Rightarrow> string" where
  "decimal n = (if n < 10 then [digit_char n] else decimal (n div 10) @ [digit_char (n mod 10)])"
  by pat_completeness auto
termination
  by (relation "measure nat") auto

declare decimal.simps [simp del]

text \<open>
  What the browser supplies and the program does not fix: \<open>numberToString\<close> is
  ECMAScript's Number::toString, which \<open>toFixed\<close> falls back to for a number of
  magnitude \<open>10^21\<close> or more, and \<open>toLocaleString\<close> is the locale's formatting of a
  price with exactly two fraction digits.
\<close>

record runtime =
  numberToString :: "rat \<Rightarrow> string"
  toLocaleString :: "jsnum \<Rightarrow> string"

text \<open>
  \<open>x.toFixed(f)\<close> for \<open>f\<close> from 0 to 100 (the program passes 2): a number that is not
  finite prints as its name; otherwise the sign, then the integer \<open>n\<close> nearest to
  \<open>|x| * 10^f\<close> (the larger one on a tie) written with at least \<open>f + 1\<close> digits and a
  point before the last \<open>f\<close>.
\<close>

definition toFixed :: "runtime \<Rightarrow> nat \<Rightarrow> jsnum \<Rightarrow> string" where
  "toFixed rt f x =
     (case x of
        NaN \<Rightarrow> ''NaN''
      | PosInf \<Rightarrow> ''Infinity''
      | NegInf \<Rightarrow> ''-Infinity''
      | Fin q \<Rightarrow>
          (let s = (if q < 0 then ''-'' else []);
               a = \<bar>q\<bar>
           in if 10 ^ 21 \<le> a then s @ numberToString rt a
              else
                let n = \<lfloor>a * 10 ^ f + 1 / 2\<rfloor>;
                    m = decimal n;
                    m' = (if length m \<le> f then replicate (f + 1 - length m) CHR ''0'' @ m else m);
                    k = length m'
                in if f \<noteq> 0 then s @ take (k - f) m' @ ''.'' @ drop (k - f) m'
                   else s @ m'))"

section \<open>The page\<close>

text \<open>
  One asset record of the fetched JSON, with the fields the program reads. Both numeric
  fields hold JavaScript numbers.
\<close>

record asset =
  image_url :: string
  name :: string
  symbol :: string
  current_price :: jsnum
  price_change_percentage_24h :: jsnum

text \<open>The three values \<open>'default'\<close>, \<open>'asc'\<close> and \<open>'desc'\<close> that \<open>sortOrder\<close> takes.\<close>

datatype sort_order = Default | Asc | Desc

text \<open>
  A card of the grid, by the holes of its \<open>innerHTML\<close> template: the icon's \<open>src\<close> and
  \<open>alt\<close>, the name, the symbol, the price line, and the colour and text of the change
  line.
\<close>

record card =
  className :: string
  icon_src :: string
  icon_alt :: string
  name_text :: string
  symbol_text :: string
  price_text :: string
  change_color :: string
  change_text :: string

text \<open>A child of the grid: the paragraph of the empty state, or a card.\<close>

datatype grid_child = Paragraph string | AssetCard card

text \<open>
  The module's variables and the part of the document and of local storage that the
  program reads or writes. An element's \<open>_hidden\<close> field says whether its class list
  holds \<open>hidden\<close>; \<open>body_data_theme\<close> is the \<open>data-theme\<close> attribute of the body and
  \<open>localStorage_theme\<close> the stored item \<open>highlite-theme\<close>, \<open>None\<close> when absent.
\<close>

record page =
  assets :: "asset list"
  displayAssets :: "asset list"
  sortOrder :: sort_order
  minPriceInput_value :: string
  maxPriceInput_value :: string
  sortLabel_textContent :: string
  assetGrid_children :: "grid_child list"
  assetGrid_hidden :: bool
  loader_hidden :: bool
  errorContainer_hidden :: bool
  errorText_textContent :: string
  body_data_theme :: "string option"
  localStorage_theme :: "string option"
  sunIcon_hidden :: bool
  moonIcon_hidden :: bool

subsection \<open>Array.prototype.sort\<close>

text \<open>
  The sort reads the comparator's result \<open>v\<close> (a \<open>NaN\<close> counts as \<open>+0\<close>) and places
  \<open>x\<close> after \<open>y\<close> when \<open>v > 0\<close>.
\<close>

definition comes_after :: "('a \<Rightarrow> 'a \<Rightarrow> jsnum) \<Rightarrow> 'a \<Rightarrow> 'a \<Rightarrow> bool" where
  "comes_after cmp x y = js_lt (Fin 0) (cmp x y)"

fun insert_by :: "('a \<Rightarrow> 'a \<Rightarrow> jsnum) \<Rightarrow> 'a \<Rightarrow> 'a list \<Rightarrow> 'a list" where
  "insert_by cmp x [] = [x]"
| "insert_by cmp x (y # ys) =
     (if comes_after cmp x y then y # insert_by cmp x ys else x # y # ys)"

text \<open>
  \<open>xs.sort(cmp)\<close>. ECMAScript requires a stable sort and leaves the algorithm open; for a
  consistent comparator the result is the same whatever the algorithm, and the model
  is the stable insertion sort. (With an inconsistent comparator the order is
  implementation-defined; the comparators of this program are inconsistent only on
  \<open>NaN\<close> prices, which the price filter never lets through.)
\<close>

definition array_sort :: "('a \<Rightarrow> 'a \<Rightarrow> jsnum) \<Rightarrow> 'a list \<Rightarrow> 'a list" where
  "array_sort cmp xs = foldr (insert_by cmp) xs []"

subsection \<open>Rendering\<close>

text \<open>The card that \<open>renderAssets\<close> builds for one asset.\<close>

definition asset_card :: "runtime \<Rightarrow> asset \<Rightarrow> card" where
  "asset_card rt a =
     (let priceChange = price_change_percentage_24h a;
          colorClass = (if js_ge priceChange (Fin 0) then ''positive'' else ''negative'');
          sign = (if js_ge priceChange (Fin 0) then ''+'' else [])
      in \<lparr> className = ''asset-card'',
           icon_src = image_url a,
           icon_alt = name a,
           name_text = name a,
           symbol_text = symbol a,
           price_text = ''$'' @ toLocaleString rt (current_price a),
           change_color = ''var(--'' @ colorClass @ '')'',
           change_text = sign @ toFixed rt 2 priceChange @ ''%'' \<rparr>)"

definition no_assets_message :: string where
  "no_assets_message = ''No assets found in this price range.''"

text \<open>
  \<open>renderAssets\<close>: empty the grid; for an empty display list put the paragraph and
  return; otherwise append one card per asset, in the order of \<open>forEach\<close>.
\<close>

definition renderAssets :: "runtime \<Rightarrow> page \<Rightarrow> page" where
  "renderAssets rt s =
     (let s0 = s\<lparr>assetGrid_children := []\<rparr>
      in if length (displayAssets s0) = 0
         then s0\<lparr>assetGrid_children := [Paragraph no_assets_message]\<rparr>
         else foldl (\<lambda>t a. t\<lparr>assetGrid_children :=
                                  assetGrid_children t @ [AssetCard (asset_card rt a)]\<rparr>)
                s0 (displayAssets s0))"

subsection \<open>Filtering and sorting\<close>

text \<open>The predicate of both \<open>filter\<close> calls, with the bounds \<open>min\<close> and \<open>max\<close>.\<close>

definition price_in_range :: "jsnum \<Rightarrow> jsnum \<Rightarrow> asset \<Rightarrow> bool" where
  "price_in_range mn mx a = (js_ge (current_price a) mn \<and> js_le (current_price a) mx)"

text \<open>The constants \<open>min\<close> and \<open>max\<close> of \<open>applyFiltersAndSort\<close>.\<close>

definition min_bound :: "page \<Rightarrow> jsnum" where
  "min_bound s = logical_or (parseFloat (minPriceInput_value s)) (Fin 0)"

definition max_bound :: "page \<Rightarrow> jsnum" where
  "max_bound s = logical_or (parseFloat (maxPriceInput_value s)) PosInf"

definition applyFiltersAndSort :: "runtime \<Rightarrow> page \<Rightarrow> page" where
  "applyFiltersAndSort rt s =
     (let mn = min_bound s;
          mx = max_bound s;
          s1 = s\<lparr>displayAssets := filter (price_in_range mn mx) (assets s)\<rparr>;
          s2 = (if sortOrder s1 = Asc
                then s1\<lparr>displayAssets :=
                         array_sort (\<lambda>a b. js_sub (current_price a) (current_price b))
                           (displayAssets s1)\<rparr>
                else if sortOrder s1 = Desc
                then s1\<lparr>displayAssets :=
                         array_sort (\<lambda>a b. js_sub (current_price b) (current_price a))
                           (displayAssets s1)\<rparr>
                else s1\<lparr>displayAssets := filter (price_in_range mn mx) (assets s1)\<rparr>)
      in renderAssets rt s2)"

definition cycleSort :: "runtime \<Rightarrow> page \<Rightarrow> page" where
  "cycleSort rt s =
     applyFiltersAndSort rt
       (if sortOrder s = Default
        then s\<lparr>sortOrder := Desc, sortLabel_textContent := ''Sort: High to Low''\<rparr>
        else if sortOrder s = Desc
        then s\<lparr>sortOrder := Asc, sortLabel_textContent := ''Sort: Low to High''\<rparr>
        else s\<lparr>sortOrder := Default, sortLabel_textContent := ''Sort: Default''\<rparr>)"

definition clearFilters :: "runtime \<Rightarrow> page \<Rightarrow> page" where
  "clearFilters rt s =
     applyFiltersAndSort rt
       (s\<lparr>minPriceInput_value := [], maxPriceInput_value := [],
          sortOrder := Default, sortLabel_textContent := ''Sort: Default''\<rparr>)"

subsection \<open>Theme\<close>

definition toggleTheme :: "page \<Rightarrow> page" where
  "toggleTheme s =
     (let currentTheme = body_data_theme s;
          newTheme = (if currentTheme = Some ''light'' then ''dark'' else ''light'');
          s1 = s\<lparr>body_data_theme := Some newTheme, localStorage_theme := Some newTheme\<rparr>
      in if newTheme = ''dark''
         then s1\<lparr>sunIcon_hidden := True, moonIcon_hidden := False\<rparr>
         else s1\<lparr>sunIcon_hidden := False, moonIcon_hidden := True\<rparr>)"

subsection \<open>Fetching\<close>

definition showLoader :: "page \<Rightarrow> page" where
  "showLoader s = s\<lparr>loader_hidden := False, assetGrid_hidden := True\<rparr>"

definition hideLoader :: "page \<Rightarrow> page" where
  "hideLoader s = s\<lparr>loader_hidden := True, assetGrid_hidden := False\<rparr>"

definition showError :: "string \<Rightarrow> page \<Rightarrow> page" where
  "showError msg s = s\<lparr>errorText_textContent := msg, errorContainer_hidden := False\<rparr>"

definition hideError :: "page \<Rightarrow> page" where
  "hideError s = s\<lparr>errorContainer_hidden := True\<rparr>"

text \<open>
  What the request comes back with. \<open>fetch\<close> either rejects (\<open>None\<close>) or resolves to a
  response with its \<open>ok\<close> flag, status and status text; \<open>body_json\<close> is what
  \<open>response.json()\<close> resolves to, \<open>None\<close> when it rejects because the body is not JSON.
  A body that parses is taken to be an array of asset records, the shape that the
  program assumes without checking.
\<close>

record response =
  ok :: bool
  status :: nat
  statusText :: string
  body_json :: "asset list option"

definition fetch_error_message :: string where
  "fetch_error_message =
     ''Could not fetch crypto data. Please check your connection or try again later.''"

text \<open>
  \<open>fetchAssets\<close> runs in two steps, with the request in between: the statements before
  the first \<open>await\<close>, and the rest of the \<open>try\<close> with its \<open>catch\<close> and \<open>finally\<close> once
  the request has come back. Other handlers may run between the two steps, so the
  second one starts from any page. The line written to the console is not modelled.
\<close>

definition fetchAssets_begin :: "page \<Rightarrow> page" where
  "fetchAssets_begin s = hideError (showLoader s)"

definition fetchAssets_complete :: "runtime \<Rightarrow> response option \<Rightarrow> page \<Rightarrow> page" where
  "fetchAssets_complete rt fetched s =
     hideLoader
       (case fetched of
          None \<Rightarrow> showError fetch_error_message s
        | Some r \<Rightarrow>
            if \<not> ok r then showError fetch_error_message s
            else (case body_json r of
                    None \<Rightarrow> showError fetch_error_message s
                  | Some data \<Rightarrow> applyFiltersAndSort rt (s\<lparr>assets := data\<rparr>)))"

definition fetchAssets :: "runtime \<Rightarrow> response option \<Rightarrow> page \<Rightarrow> page" where
  "fetchAssets rt fetched s = fetchAssets_complete rt fetched (fetchAssets_begin s)"

text \<open>\<open>init\<close>: apply a stored dark theme, then fetch.\<close>

definition init :: "runtime \<Rightarrow> response option \<Rightarrow> page \<Rightarrow> page" where
  "init rt fetched s =
     (let savedTheme = localStorage_theme s
      in fetchAssets rt fetched
           (if savedTheme = Some ''dark''
            then s\<lparr>body_data_theme := Some ''dark'', sunIcon_hidden := True,
                   moonIcon_hidden := False\<rparr>
            else s))"

section \<open>Notions of the statements\<close>

text \<open>The label that \<open>cycleSort\<close> and \<open>clearFilters\<close> write together with each mode.\<close>

fun label_for :: "sort_order \<Rightarrow> string" where
  "label_for Default = ''Sort: Default''"
| "label_for Desc = ''Sort: High to Low''"
| "label_for Asc = ''Sort: Low to High''"

text \<open>
  The theme is settled when the attribute is \<open>light\<close> or \<open>dark\<close>, the stored value is
  the same, and the icon of that theme is the visible one (the sun for light, the moon
  for dark).
\<close>

definition theme_settled :: "page \<Rightarrow> bool" where
  "theme_settled s =
     (if body_data_theme s = Some ''light''
      then localStorage_theme s = Some ''light'' \<and> sunIcon_hidden s = False \<and>
           moonIcon_hidden s = True
      else body_data_theme s = Some ''dark'' \<and> localStorage_theme s = Some ''dark'' \<and>
           sunIcon_hidden s = True \<and> moonIcon_hidden s = False)"

text \<open>
  The request failed: \<open>fetch\<close> rejected, the response has a non-success status, or its
  body does not parse.
\<close>

definition fetch_failed :: "response option \<Rightarrow> bool" where
  "fetch_failed fetched =
     (case fetched of None \<Rightarrow> True | Some r \<Rightarrow> \<not> ok r \<or> body_json r = None)"

text \<open>
  A percentage text with exactly two decimal places: an optional sign, one or more
  digits, a point, two digits and the percent sign.
\<close>

definition two_decimal_places :: "string \<Rightarrow> bool" where
  "two_decimal_places t =
     (case rev t of
        pc # d2 # d1 # dot # ip \<Rightarrow>
          pc = CHR ''%'' \<and> is_digit d2 \<and> is_digit d1 \<and> dot = CHR ''.'' \<and>
          (case rev ip of
             [] \<Rightarrow> False
           | c # ds \<Rightarrow>
               if c = CHR ''+'' \<or> c = CHR ''-'' then ds \<noteq> [] \<and> list_all is_digit ds
               else list_all is_digit (c # ds))
      | _ \<Rightarrow> False)"

text \<open>
  The two bounds as the spec derives them from the inputs: an absent or non-numeric
  minimum is zero, an absent or non-numeric maximum is unbounded, and a numeric input,
  the number 0 included, is applied as parsed. An input is numeric when \<open>parseFloat\<close>
  gives a number for it.
\<close>

definition spec_min_bound :: "page \<Rightarrow> jsnum" where
  "spec_min_bound s =
     (if parseFloat (minPriceInput_value s) = NaN then Fin 0
      else parseFloat (minPriceInput_value s))"

definition spec_max_bound :: "page \<Rightarrow> jsnum" where
  "spec_max_bound s =
     (if parseFloat (maxPriceInput_value s) = NaN then PosInf
      else parseFloat (maxPriceInput_value s))"

text \<open>The price-range predicate of the spec, over those bounds.\<close>

definition spec_price_in_range :: "page \<Rightarrow> asset \<Rightarrow> bool" where
  "spec_price_in_range s a =
     (js_le (spec_min_bound s) (current_price a) \<and> js_le (current_price a) (spec_max_bound s))"

text \<open>
  The invariant of the display list in the spec: every element is an element of the
  base list and satisfies the price-range predicate of the spec.
\<close>

definition display_within_base :: "page \<Rightarrow> bool" where
  "display_within_base s =
     list_all (\<lambda>a. a \<in> set (assets s) \<and> spec_price_in_range s a) (displayAssets s)"

section \<open>Pages and assets of the worked examples\<close>

text \<open>
  Modelled from the spec: the page before any handler has run, as the document delivers
  it (index.html is not among the sources). The spec has the theme default to light
  with nothing stored, the sun icon visible in light mode, the label \<open>Sort: Default\<close>
  for the default mode and both bound inputs empty; the module starts with empty lists
  and the default mode.
\<close>

definition page_at_load :: page where
  "page_at_load =
     \<lparr> assets = [], displayAssets = [], sortOrder = Default,
       minPriceInput_value = [], maxPriceInput_value = [],
       sortLabel_textContent = ''Sort: Default'',
       assetGrid_children = [], assetGrid_hidden = False, loader_hidden = True,
       errorContainer_hidden = True, errorText_textContent = [],
       body_data_theme = None, localStorage_theme = None,
       sunIcon_hidden = False, moonIcon_hidden = True \<rparr>"

text \<open>The page at load with a base list, the two bound inputs and a sort mode put in.\<close>

definition listing :: "asset list \<Rightarrow> string \<Rightarrow> string \<Rightarrow> sort_order \<Rightarrow> page" where
  "listing base mn mx ord =
     page_at_load\<lparr>assets := base, minPriceInput_value := mn, maxPriceInput_value := mx,
                  sortOrder := ord, sortLabel_textContent := label_for ord\<rparr>"

text \<open>An asset with a name, a price and a 24-hour change.\<close>

definition coin :: "string \<Rightarrow> jsnum \<Rightarrow> jsnum \<Rightarrow> asset" where
  "coin n p c =
     \<lparr> image_url = [], name = n, symbol = n, current_price = p,
       price_change_percentage_24h = c \<rparr>"

text \<open>
  A runtime for the examples. Its \<open>numberToString\<close> is given at \<open>10^21\<close> only, which
  Number::toString prints as \<open>1e+21\<close>; a price prints as \<open>toFixed(2)\<close> prints it,
  without digit grouping.
\<close>

definition example_numberToString :: "rat \<Rightarrow> string" where
  "example_numberToString q = (if q = 10 ^ 21 then ''1e+21'' else [])"

definition plain_runtime :: runtime where
  "plain_runtime =
     \<lparr> numberToString = example_numberToString,
       toLocaleString =
         toFixed \<lparr> numberToString = example_numberToString, toLocaleString = (\<lambda>x. []) \<rparr> 2 \<rparr>"

section \<open>Numbers\<close>

lemma js_le_refl_iff: "js_le a a = (a \<noteq> NaN)"
  by (cases a) simp_all

lemma js_le_trans: "js_le a b \<Longrightarrow> js_le b c \<Longrightarrow> js_le a c"
  by (cases a; cases b; cases c) simp_all

lemma js_le_total: "a \<noteq> NaN \<Longrightarrow> b \<noteq> NaN \<Longrightarrow> js_le a b \<or> js_le b a"
  by (cases a; cases b) auto

lemma js_le_not_NaN: "js_le a b \<Longrightarrow> a \<noteq> NaN \<and> b \<noteq> NaN"
  by (cases a; cases b) simp_all

lemma positive_difference:
  "a \<noteq> NaN \<Longrightarrow> b \<noteq> NaN \<Longrightarrow> js_lt (Fin 0) (js_sub a b) = (\<not> js_le a b)"
  by (cases a; cases b) auto

lemma difference_of_equals: "\<not> js_lt (Fin 0) (js_sub a a)"
  by (cases a) simp_all

section \<open>Sorting\<close>

lemma array_sort_Nil: "array_sort cmp [] = []"
  by (simp add: array_sort_def)

lemma array_sort_Cons: "array_sort cmp (x # xs) = insert_by cmp x (array_sort cmp xs)"
  by (simp add: array_sort_def)

lemma set_insert_by: "set (insert_by cmp x ys) = insert x (set ys)"
  by (induction ys) auto

lemma set_array_sort: "set (array_sort cmp xs) = set xs"
  by (induction xs) (simp_all add: array_sort_def set_insert_by)

lemma mset_insert_by: "mset (insert_by cmp x ys) = add_mset x (mset ys)"
  by (induction ys) simp_all

lemma mset_array_sort: "mset (array_sort cmp xs) = mset xs"
  by (induction xs) (simp_all add: array_sort_def mset_insert_by)

lemma sorted_insert_by:
  assumes "sorted_wrt R ys"
    and "\<forall>y \<in> set ys. (comes_after cmp x y \<longrightarrow> R y x) \<and> (\<not> comes_after cmp x y \<longrightarrow> R x y)"
    and "\<forall>y \<in> set ys. \<forall>z \<in> set ys. R x y \<longrightarrow> R y z \<longrightarrow> R x z"
  shows "sorted_wrt R (insert_by cmp x ys)"
  using assms
proof (induction ys)
  case Nil
  then show ?case by simp
next
  case (Cons y ys)
  have sorted_tl: "sorted_wrt R ys" and y_first: "\<forall>z \<in> set ys. R y z"
    using Cons.prems(1) by simp_all
  show ?case
  proof (cases "comes_after cmp x y")
    case True
    have "sorted_wrt R (insert_by cmp x ys)"
    proof (rule Cons.IH [OF sorted_tl])
      show "\<forall>y \<in> set ys. (comes_after cmp x y \<longrightarrow> R y x) \<and> (\<not> comes_after cmp x y \<longrightarrow> R x y)"
        using Cons.prems(2) by simp
      show "\<forall>y \<in> set ys. \<forall>z \<in> set ys. R x y \<longrightarrow> R y z \<longrightarrow> R x z"
        using Cons.prems(3) by (meson list.set_intros(2))
    qed
    moreover have "R y x"
      using Cons.prems(2) True by simp
    ultimately show ?thesis
      using True y_first by (simp add: set_insert_by)
  next
    case False
    then have xy: "R x y" using Cons.prems(2) by simp
    have "\<forall>z \<in> set ys. R x z"
    proof
      fix z assume z: "z \<in> set ys"
      then have "R y z" using y_first by simp
      then show "R x z" using Cons.prems(3) xy z by (meson list.set_intros)
    qed
    then show ?thesis using False xy Cons.prems(1) by simp
  qed
qed

lemma sorted_array_sort:
  assumes "\<forall>x \<in> set xs. \<forall>y \<in> set xs.
             (comes_after cmp x y \<longrightarrow> R y x) \<and> (\<not> comes_after cmp x y \<longrightarrow> R x y)"
    and "\<forall>x \<in> set xs. \<forall>y \<in> set xs. \<forall>z \<in> set xs. R x y \<longrightarrow> R y z \<longrightarrow> R x z"
  shows "sorted_wrt R (array_sort cmp xs)"
  using assms
proof (induction xs)
  case Nil
  show ?case by (simp add: array_sort_Nil)
next
  case (Cons x xs)
  have ih: "sorted_wrt R (array_sort cmp xs)"
  proof (rule Cons.IH)
    show "\<forall>x \<in> set xs. \<forall>y \<in> set xs.
            (comes_after cmp x y \<longrightarrow> R y x) \<and> (\<not> comes_after cmp x y \<longrightarrow> R x y)"
      using Cons.prems(1) by (meson list.set_intros(2))
    show "\<forall>x \<in> set xs. \<forall>y \<in> set xs. \<forall>z \<in> set xs. R x y \<longrightarrow> R y z \<longrightarrow> R x z"
      using Cons.prems(2) by (meson list.set_intros(2))
  qed
  have "sorted_wrt R (insert_by cmp x (array_sort cmp xs))"
  proof (rule sorted_insert_by [OF ih])
    show "\<forall>y \<in> set (array_sort cmp xs).
            (comes_after cmp x y \<longrightarrow> R y x) \<and> (\<not> comes_after cmp x y \<longrightarrow> R x y)"
      unfolding set_array_sort using Cons.prems(1) by (meson list.set_intros)
    show "\<forall>y \<in> set (array_sort cmp xs). \<forall>z \<in> set (array_sort cmp xs).
            R x y \<longrightarrow> R y z \<longrightarrow> R x z"
      unfolding set_array_sort using Cons.prems(2) by (meson list.set_intros)
  qed
  then show ?case by (simp only: array_sort_Cons)
qed

lemma filter_insert_by:
  assumes "\<forall>y \<in> set ys. k y = k x \<longrightarrow> \<not> comes_after cmp x y"
  shows "filter (\<lambda>a. k a = p) (insert_by cmp x ys) = filter (\<lambda>a. k a = p) (x # ys)"
  using assms
proof (induction ys)
  case Nil
  show ?case by simp
next
  case (Cons y ys)
  have "\<forall>y \<in> set ys. k y = k x \<longrightarrow> \<not> comes_after cmp x y"
    using Cons.prems by simp
  then have ih: "filter (\<lambda>a. k a = p) (insert_by cmp x ys) = filter (\<lambda>a. k a = p) (x # ys)"
    by (rule Cons.IH)
  show ?case
  proof (cases "comes_after cmp x y")
    case True
    then have ne: "k y \<noteq> k x" using Cons.prems by auto
    have "filter (\<lambda>a. k a = p) (insert_by cmp x (y # ys))
            = filter (\<lambda>a. k a = p) (y # insert_by cmp x ys)"
      using True by simp
    also have "\<dots> = filter (\<lambda>a. k a = p) [y] @ filter (\<lambda>a. k a = p) (x # ys)"
      using ih by simp
    also have "\<dots> = filter (\<lambda>a. k a = p) (x # y # ys)"
      using ne by auto
    finally show ?thesis .
  next
    case False
    then show ?thesis by simp
  qed
qed

lemma filter_array_sort:
  assumes "\<forall>x y. k y = k x \<longrightarrow> \<not> comes_after cmp x y"
  shows "filter (\<lambda>a. k a = p) (array_sort cmp xs) = filter (\<lambda>a. k a = p) xs"
proof (induction xs)
  case Nil
  show ?case by (simp add: array_sort_Nil)
next
  case (Cons x xs)
  have "filter (\<lambda>a. k a = p) (array_sort cmp (x # xs))
          = filter (\<lambda>a. k a = p) (insert_by cmp x (array_sort cmp xs))"
    by (simp only: array_sort_Cons)
  also have "\<dots> = filter (\<lambda>a. k a = p) (x # array_sort cmp xs)"
    by (rule filter_insert_by) (simp add: assms)
  also have "\<dots> = filter (\<lambda>a. k a = p) (x # xs)"
    using Cons.IH by simp
  finally show ?case .
qed

section \<open>Formatting\<close>

lemma is_digit_digit_char: "0 \<le> d \<Longrightarrow> d < 10 \<Longrightarrow> is_digit (digit_char d)"
proof -
  assume "0 \<le> d" "d < 10"
  then have "d = 0 \<or> d = 1 \<or> d = 2 \<or> d = 3 \<or> d = 4 \<or> d = 5 \<or> d = 6 \<or> d = 7 \<or> d = 8 \<or> d = 9"
    by arith
  then show ?thesis
    by (auto simp: is_digit_def digit_char_def)
qed

lemma decimal_digits: "0 \<le> n \<Longrightarrow> decimal n \<noteq> [] \<and> list_all is_digit (decimal n)"
proof (induction n rule: decimal.induct)
  case (1 n)
  show ?case
  proof (cases "n < 10")
    case True
    then show ?thesis
      using "1.prems" by (simp add: decimal.simps [of n] is_digit_digit_char)
  next
    case False
    then have "0 \<le> n div 10" by simp
    then have "list_all is_digit (decimal (n div 10))"
      using "1.IH" False by simp
    moreover have "is_digit (digit_char (n mod 10))"
      by (rule is_digit_digit_char) simp_all
    ultimately show ?thesis
      using False by (simp add: decimal.simps [of n])
  qed
qed

lemma is_digit_zero: "is_digit CHR ''0''"
  by (simp add: is_digit_def)

lemma two_digit_tail:
  assumes "3 \<le> length m" and "list_all is_digit m"
  shows "\<exists>ds d1 d2. take (length m - 2) m @ CHR ''.'' # drop (length m - 2) m = ds @ CHR ''.'' # [d1, d2]
           \<and> ds \<noteq> [] \<and> list_all is_digit ds \<and> is_digit d1 \<and> is_digit d2"
proof -
  let ?t = "drop (length m - 2) m"
  have "length ?t = 2" using assms(1) by simp
  then obtain d1 d2 where t: "?t = [d1, d2]"
    by (metis (no_types, lifting) One_nat_def Suc_1 length_0_conv length_Suc_conv)
  have "list_all is_digit ?t"
    using assms(2) by (metis append_take_drop_id list_all_append)
  then have d: "is_digit d1" "is_digit d2" using t by simp_all
  have "list_all is_digit (take (length m - 2) m)"
    using assms(2) by (metis append_take_drop_id list_all_append)
  moreover have "take (length m - 2) m \<noteq> []" using assms(1) by auto
  ultimately show ?thesis using t d by auto
qed

lemma toFixed_two:
  assumes "\<bar>q\<bar> < 10 ^ 21"
  shows "\<exists>ds d1 d2. toFixed rt 2 (Fin q) = (if q < 0 then ''-'' else []) @ ds @ CHR ''.'' # [d1, d2]
           \<and> ds \<noteq> [] \<and> list_all is_digit ds \<and> is_digit d1 \<and> is_digit d2"
proof -
  define n where "n = \<lfloor>\<bar>q\<bar> * 10 ^ 2 + 1 / 2\<rfloor>"
  define m where "m = (if length (decimal n) \<le> 2
                        then replicate (2 + 1 - length (decimal n)) CHR ''0'' @ decimal n
                        else decimal n)"
  have "0 \<le> n" unfolding n_def by simp
  then have dn: "decimal n \<noteq> []" "list_all is_digit (decimal n)"
    using decimal_digits by simp_all
  have len: "3 \<le> length m"
    unfolding m_def by auto
  have dig: "list_all is_digit m"
    unfolding m_def using dn(2) by (simp add: list_all_iff is_digit_zero)
  have eq: "toFixed rt 2 (Fin q)
              = (if q < 0 then ''-'' else []) @ (take (length m - 2) m @ CHR ''.'' # drop (length m - 2) m)"
    using assms unfolding toFixed_def m_def n_def by (simp add: Let_def)
  from two_digit_tail [OF len dig] obtain ds d1 d2 where
    "take (length m - 2) m @ CHR ''.'' # drop (length m - 2) m = ds @ CHR ''.'' # [d1, d2]"
    "ds \<noteq> []" "list_all is_digit ds" "is_digit d1" "is_digit d2"
    by blast
  then show ?thesis using eq by auto
qed

lemma change_text_two_decimals:
  assumes "price_change_percentage_24h a = Fin q" and "\<bar>q\<bar> < 10 ^ 21"
  shows "two_decimal_places (change_text (asset_card rt a))"
proof -
  from toFixed_two [OF assms(2), of rt] obtain ds d1 d2 where
    t: "toFixed rt 2 (Fin q) = (if q < 0 then ''-'' else []) @ ds @ CHR ''.'' # [d1, d2]"
    and ds: "ds \<noteq> []" "list_all is_digit ds" and d: "is_digit d1" "is_digit d2"
    by blast
  have "change_text (asset_card rt a)
          = (if q < 0 then ''-'' else ''+'') @ ds @ CHR ''.'' # [d1, d2] @ ''%''"
    using assms(1) t by (simp add: asset_card_def Let_def js_ge_def)
  then show ?thesis
    using ds d by (simp add: two_decimal_places_def)
qed

lemma change_text_plus:
  "(take 1 (change_text (asset_card rt a)) = ''+'') = js_ge (price_change_percentage_24h a) (Fin 0)"
  by (cases "price_change_percentage_24h a")
     (auto simp: asset_card_def Let_def js_ge_def toFixed_def)

lemma change_color_class:
  "change_color (asset_card rt a) =
     (if js_ge (price_change_percentage_24h a) (Fin 0) then ''var(--positive)''
      else ''var(--negative)'')"
  by (simp add: asset_card_def Let_def)

section \<open>Rendering and filtering, in closed form\<close>

lemma parseFloat_empty: "parseFloat [] = NaN"
  by (simp add: parseFloat_def)

lemma parseFloat_zero: "parseFloat ''0'' = Fin 0"
  by code_simp

lemma absent_bounds:
  "minPriceInput_value s = [] \<Longrightarrow> min_bound s = Fin 0"
  "maxPriceInput_value s = [] \<Longrightarrow> max_bound s = PosInf"
  by (simp_all add: min_bound_def max_bound_def logical_or_def parseFloat_empty)

lemma min_bound_not_NaN: "min_bound s \<noteq> NaN"
  by (cases "parseFloat (minPriceInput_value s)") (simp_all add: min_bound_def logical_or_def)

lemma price_in_range_not_NaN: "price_in_range mn mx a \<Longrightarrow> current_price a \<noteq> NaN"
  by (cases "current_price a") (simp_all add: price_in_range_def js_ge_def)

lemma price_in_range_absent:
  "price_in_range (Fin 0) PosInf a = js_le (Fin 0) (current_price a)"
  by (cases "current_price a") (simp_all add: price_in_range_def js_ge_def)

lemma foldl_append_children:
  "foldl (\<lambda>t a. t\<lparr>assetGrid_children := assetGrid_children t @ [f a]\<rparr>) s xs
     = s\<lparr>assetGrid_children := assetGrid_children s @ map f xs\<rparr>"
  by (induction xs arbitrary: s) simp_all

lemma renderAssets_eq:
  "renderAssets rt s =
     s\<lparr>assetGrid_children :=
         (if displayAssets s = [] then [Paragraph no_assets_message]
          else map (\<lambda>a. AssetCard (asset_card rt a)) (displayAssets s))\<rparr>"
  by (simp add: renderAssets_def Let_def foldl_append_children)

lemma applyFiltersAndSort_eq:
  "applyFiltersAndSort rt s =
     (let d = (if sortOrder s = Asc
               then array_sort (\<lambda>a b. js_sub (current_price a) (current_price b))
                      (filter (price_in_range (min_bound s) (max_bound s)) (assets s))
               else if sortOrder s = Desc
               then array_sort (\<lambda>a b. js_sub (current_price b) (current_price a))
                      (filter (price_in_range (min_bound s) (max_bound s)) (assets s))
               else filter (price_in_range (min_bound s) (max_bound s)) (assets s))
      in s\<lparr>displayAssets := d,
           assetGrid_children :=
             (if d = [] then [Paragraph no_assets_message]
              else map (\<lambda>a. AssetCard (asset_card rt a)) d)\<rparr>)"
  by (simp add: applyFiltersAndSort_def Let_def renderAssets_eq)

lemma applyFiltersAndSort_keeps:
  "assets (applyFiltersAndSort rt s) = assets s"
  "sortOrder (applyFiltersAndSort rt s) = sortOrder s"
  "minPriceInput_value (applyFiltersAndSort rt s) = minPriceInput_value s"
  "maxPriceInput_value (applyFiltersAndSort rt s) = maxPriceInput_value s"
  "sortLabel_textContent (applyFiltersAndSort rt s) = sortLabel_textContent s"
  by (simp_all add: applyFiltersAndSort_eq Let_def)

lemma bounds_applyFiltersAndSort:
  "min_bound (applyFiltersAndSort rt s) = min_bound s"
  "max_bound (applyFiltersAndSort rt s) = max_bound s"
  by (simp_all add: min_bound_def max_bound_def applyFiltersAndSort_keeps)

lemma set_displayAssets:
  "set (displayAssets (applyFiltersAndSort rt s))
     = {a \<in> set (assets s). price_in_range (min_bound s) (max_bound s) a}"
  by (simp add: applyFiltersAndSort_eq Let_def set_array_sort)

section \<open>Fetching, in closed form\<close>

lemma fetchAssets_complete_failed:
  "fetch_failed fetched \<Longrightarrow>
   fetchAssets_complete rt fetched s =
     s\<lparr>errorText_textContent := fetch_error_message, errorContainer_hidden := False,
       loader_hidden := True, assetGrid_hidden := False\<rparr>"
  by (auto simp: fetch_failed_def fetchAssets_complete_def hideLoader_def showError_def
           split: option.splits)

lemma fetchAssets_complete_succeeded:
  "fetched = Some r \<Longrightarrow> ok r \<Longrightarrow> body_json r = Some data \<Longrightarrow>
   fetchAssets_complete rt fetched s =
     (applyFiltersAndSort rt (s\<lparr>assets := data\<rparr>))\<lparr>loader_hidden := True, assetGrid_hidden := False\<rparr>"
  by (simp add: fetchAssets_complete_def hideLoader_def)

lemma fetch_cases:
  "fetch_failed fetched \<or> (\<exists>r data. fetched = Some r \<and> ok r \<and> body_json r = Some data)"
  by (cases fetched) (auto simp: fetch_failed_def)

lemma fetchAssets_begin_eq:
  "fetchAssets_begin s =
     s\<lparr>loader_hidden := False, assetGrid_hidden := True, errorContainer_hidden := True\<rparr>"
  by (simp add: fetchAssets_begin_def hideError_def showLoader_def)

lemma applyFiltersAndSort_theme:
  "body_data_theme (applyFiltersAndSort rt s) = body_data_theme s"
  "localStorage_theme (applyFiltersAndSort rt s) = localStorage_theme s"
  "sunIcon_hidden (applyFiltersAndSort rt s) = sunIcon_hidden s"
  "moonIcon_hidden (applyFiltersAndSort rt s) = moonIcon_hidden s"
  by (simp_all add: applyFiltersAndSort_eq Let_def)

lemma fetchAssets_theme:
  "body_data_theme (fetchAssets rt fetched s) = body_data_theme s"
  "localStorage_theme (fetchAssets rt fetched s) = localStorage_theme s"
  "sunIcon_hidden (fetchAssets rt fetched s) = sunIcon_hidden s"
  "moonIcon_hidden (fetchAssets rt fetched s) = moonIcon_hidden s"
  using fetch_cases [of fetched]
  by (auto simp: fetchAssets_def fetchAssets_complete_failed fetchAssets_complete_succeeded
        fetchAssets_begin_eq applyFiltersAndSort_theme)

section \<open>The theme, in closed form\<close>

lemma toggleTheme_light:
  "body_data_theme s = Some ''light'' \<Longrightarrow>
   toggleTheme s = s\<lparr>body_data_theme := Some ''dark'', localStorage_theme := Some ''dark'',
                     sunIcon_hidden := True, moonIcon_hidden := False\<rparr>"
  by (simp add: toggleTheme_def Let_def)

lemma toggleTheme_other:
  "body_data_theme s \<noteq> Some ''light'' \<Longrightarrow>
   toggleTheme s = s\<lparr>body_data_theme := Some ''light'', localStorage_theme := Some ''light'',
                     sunIcon_hidden := False, moonIcon_hidden := True\<rparr>"
  by (simp add: toggleTheme_def Let_def)

lemma toggleTheme_settles: "theme_settled (toggleTheme s)"
  by (cases "body_data_theme s = Some ''light''")
     (simp_all add: toggleTheme_light toggleTheme_other theme_settled_def)

lemma toggleTheme_twice_settled:
  assumes settled: "theme_settled s"
  shows "toggleTheme (toggleTheme s) = s"
proof (cases "body_data_theme s = Some ''light''")
  case True
  then have f: "localStorage_theme s = Some ''light''" "sunIcon_hidden s = False"
    "moonIcon_hidden s = True"
    using settled by (simp_all add: theme_settled_def)
  have "toggleTheme (toggleTheme s) =
          s\<lparr>body_data_theme := Some ''light'', localStorage_theme := Some ''light'',
            sunIcon_hidden := False, moonIcon_hidden := True\<rparr>"
    by (simp add: toggleTheme_light [OF True] toggleTheme_other)
  also have "\<dots> = s"
    using True f by (cases s) simp
  finally show ?thesis .
next
  case False
  then have f: "body_data_theme s = Some ''dark''" "localStorage_theme s = Some ''dark''"
    "sunIcon_hidden s = True" "moonIcon_hidden s = False"
    using settled by (simp_all add: theme_settled_def)
  have "toggleTheme (toggleTheme s) =
          s\<lparr>body_data_theme := Some ''dark'', localStorage_theme := Some ''dark'',
            sunIcon_hidden := True, moonIcon_hidden := False\<rparr>"
    by (simp add: toggleTheme_other [OF False] toggleTheme_light)
  also have "\<dots> = s"
    using f by (cases s) simp
  finally show ?thesis .
qed

section \<open>Cycling and clearing, in closed form\<close>

lemma applyFiltersAndSort_idem:
  "applyFiltersAndSort rt (applyFiltersAndSort rt s) = applyFiltersAndSort rt s"
proof -
  let ?t = "applyFiltersAndSort rt s"
  have "applyFiltersAndSort rt ?t = ?t\<lparr>displayAssets := displayAssets ?t,
          assetGrid_children := assetGrid_children ?t\<rparr>"
    unfolding applyFiltersAndSort_eq [of rt ?t] applyFiltersAndSort_keeps
      bounds_applyFiltersAndSort
    by (simp add: applyFiltersAndSort_eq [of rt s] Let_def)
  then show ?thesis by simp
qed

lemma applyFiltersAndSort_absorbs:
  "applyFiltersAndSort rt
     ((applyFiltersAndSort rt s)\<lparr>sortOrder := m, sortLabel_textContent := l\<rparr>)
   = applyFiltersAndSort rt (s\<lparr>sortOrder := m, sortLabel_textContent := l\<rparr>)"
proof -
  let ?t = "(applyFiltersAndSort rt s)\<lparr>sortOrder := m, sortLabel_textContent := l\<rparr>"
  let ?u = "s\<lparr>sortOrder := m, sortLabel_textContent := l\<rparr>"
  have b: "min_bound ?t = min_bound ?u" "max_bound ?t = max_bound ?u"
    by (simp_all add: min_bound_def max_bound_def applyFiltersAndSort_keeps)
  have a: "assets ?t = assets ?u" "sortOrder ?t = sortOrder ?u"
    by (simp_all add: applyFiltersAndSort_keeps)
  have t: "?t = ?u\<lparr>displayAssets := displayAssets (applyFiltersAndSort rt s),
                   assetGrid_children := assetGrid_children (applyFiltersAndSort rt s)\<rparr>"
    by (simp add: applyFiltersAndSort_eq [of rt s] Let_def)
  show ?thesis
    unfolding applyFiltersAndSort_eq [of rt ?t] applyFiltersAndSort_eq [of rt ?u] a b
    by (subst t) (simp add: Let_def)
qed

lemma cycleSort_from:
  "sortOrder s = Default \<Longrightarrow> cycleSort rt s =
     applyFiltersAndSort rt (s\<lparr>sortOrder := Desc, sortLabel_textContent := ''Sort: High to Low''\<rparr>)"
  "sortOrder s = Desc \<Longrightarrow> cycleSort rt s =
     applyFiltersAndSort rt (s\<lparr>sortOrder := Asc, sortLabel_textContent := ''Sort: Low to High''\<rparr>)"
  "sortOrder s = Asc \<Longrightarrow> cycleSort rt s =
     applyFiltersAndSort rt (s\<lparr>sortOrder := Default, sortLabel_textContent := ''Sort: Default''\<rparr>)"
  by (simp_all add: cycleSort_def)

lemma cycleSort_after_apply:
  "sortOrder s = Default \<Longrightarrow> cycleSort rt (applyFiltersAndSort rt s) =
     applyFiltersAndSort rt (s\<lparr>sortOrder := Desc, sortLabel_textContent := ''Sort: High to Low''\<rparr>)"
  "sortOrder s = Desc \<Longrightarrow> cycleSort rt (applyFiltersAndSort rt s) =
     applyFiltersAndSort rt (s\<lparr>sortOrder := Asc, sortLabel_textContent := ''Sort: Low to High''\<rparr>)"
  "sortOrder s = Asc \<Longrightarrow> cycleSort rt (applyFiltersAndSort rt s) =
     applyFiltersAndSort rt (s\<lparr>sortOrder := Default, sortLabel_textContent := ''Sort: Default''\<rparr>)"
  by (simp_all add: cycleSort_from applyFiltersAndSort_keeps applyFiltersAndSort_absorbs)

lemma cycleSort_thrice:
  "cycleSort rt (cycleSort rt (cycleSort rt s)) =
     applyFiltersAndSort rt (s\<lparr>sortLabel_textContent := label_for (sortOrder s)\<rparr>)"
proof (cases "sortOrder s")
  case Default
  have "cycleSort rt (cycleSort rt (cycleSort rt s)) =
          applyFiltersAndSort rt (s\<lparr>sortOrder := Default, sortLabel_textContent := ''Sort: Default''\<rparr>)"
    by (simp add: cycleSort_from(1) [OF Default] cycleSort_after_apply)
  also have "s\<lparr>sortOrder := Default, sortLabel_textContent := ''Sort: Default''\<rparr>
               = s\<lparr>sortLabel_textContent := label_for (sortOrder s)\<rparr>"
    using Default by (cases s) simp
  finally show ?thesis .
next
  case Asc
  have "cycleSort rt (cycleSort rt (cycleSort rt s)) =
          applyFiltersAndSort rt (s\<lparr>sortOrder := Asc, sortLabel_textContent := ''Sort: Low to High''\<rparr>)"
    by (simp add: cycleSort_from(3) [OF Asc] cycleSort_after_apply)
  also have "s\<lparr>sortOrder := Asc, sortLabel_textContent := ''Sort: Low to High''\<rparr>
               = s\<lparr>sortLabel_textContent := label_for (sortOrder s)\<rparr>"
    using Asc by (cases s) simp
  finally show ?thesis .
next
  case Desc
  have "cycleSort rt (cycleSort rt (cycleSort rt s)) =
          applyFiltersAndSort rt (s\<lparr>sortOrder := Desc, sortLabel_textContent := ''Sort: High to Low''\<rparr>)"
    by (simp add: cycleSort_from(2) [OF Desc] cycleSort_after_apply)
  also have "s\<lparr>sortOrder := Desc, sortLabel_textContent := ''Sort: High to Low''\<rparr>
               = s\<lparr>sortLabel_textContent := label_for (sortOrder s)\<rparr>"
    using Desc by (cases s) simp
  finally show ?thesis .
qed

lemma displayAssets_ignores_label:
  "displayAssets (applyFiltersAndSort rt (s\<lparr>sortLabel_textContent := l\<rparr>))
     = displayAssets (applyFiltersAndSort rt s)"
  by (simp add: applyFiltersAndSort_eq Let_def min_bound_def max_bound_def)

section \<open>The two sorted orders\<close>

lemma sorted_ascending:
  assumes "\<forall>a \<in> set xs. current_price a \<noteq> NaN"
  shows "sorted_wrt (\<lambda>a b. js_le (current_price a) (current_price b))
           (array_sort (\<lambda>a b. js_sub (current_price a) (current_price b)) xs)"
proof (rule sorted_array_sort)
  show "\<forall>x \<in> set xs. \<forall>y \<in> set xs.
          (comes_after (\<lambda>a b. js_sub (current_price a) (current_price b)) x y \<longrightarrow>
             js_le (current_price y) (current_price x)) \<and>
          (\<not> comes_after (\<lambda>a b. js_sub (current_price a) (current_price b)) x y \<longrightarrow>
             js_le (current_price x) (current_price y))"
    using assms js_le_total by (auto simp: comes_after_def positive_difference)
  show "\<forall>x \<in> set xs. \<forall>y \<in> set xs. \<forall>z \<in> set xs.
          js_le (current_price x) (current_price y) \<longrightarrow>
          js_le (current_price y) (current_price z) \<longrightarrow>
          js_le (current_price x) (current_price z)"
    using js_le_trans by blast
qed

lemma sorted_descending:
  assumes "\<forall>a \<in> set xs. current_price a \<noteq> NaN"
  shows "sorted_wrt (\<lambda>a b. js_le (current_price b) (current_price a))
           (array_sort (\<lambda>a b. js_sub (current_price b) (current_price a)) xs)"
proof (rule sorted_array_sort)
  show "\<forall>x \<in> set xs. \<forall>y \<in> set xs.
          (comes_after (\<lambda>a b. js_sub (current_price b) (current_price a)) x y \<longrightarrow>
             js_le (current_price x) (current_price y)) \<and>
          (\<not> comes_after (\<lambda>a b. js_sub (current_price b) (current_price a)) x y \<longrightarrow>
             js_le (current_price y) (current_price x))"
    using assms js_le_total by (auto simp: comes_after_def positive_difference)
  show "\<forall>x \<in> set xs. \<forall>y \<in> set xs. \<forall>z \<in> set xs.
          js_le (current_price y) (current_price x) \<longrightarrow>
          js_le (current_price z) (current_price y) \<longrightarrow>
          js_le (current_price z) (current_price x)"
    using js_le_trans by blast
qed

lemma stable_ascending:
  "filter (\<lambda>a. current_price a = p)
     (array_sort (\<lambda>a b. js_sub (current_price a) (current_price b)) xs)
   = filter (\<lambda>a. current_price a = p) xs"
  by (rule filter_array_sort) (simp add: comes_after_def difference_of_equals)

lemma stable_descending:
  "filter (\<lambda>a. current_price a = p)
     (array_sort (\<lambda>a b. js_sub (current_price b) (current_price a)) xs)
   = filter (\<lambda>a. current_price a = p) xs"
  by (rule filter_array_sort) (simp add: comes_after_def difference_of_equals)

lemma filter_absent_bounds:
  "filter (price_in_range (Fin 0) PosInf) xs = filter (\<lambda>a. js_le (Fin 0) (current_price a)) xs"
  by (rule filter_cong) (simp_all add: price_in_range_absent)

lemma displayAssets_sorted_modes:
  "sortOrder s = Asc \<Longrightarrow> displayAssets (applyFiltersAndSort rt s) =
     array_sort (\<lambda>a b. js_sub (current_price a) (current_price b))
       (filter (price_in_range (min_bound s) (max_bound s)) (assets s))"
  "sortOrder s = Desc \<Longrightarrow> displayAssets (applyFiltersAndSort rt s) =
     array_sort (\<lambda>a b. js_sub (current_price b) (current_price a))
       (filter (price_in_range (min_bound s) (max_bound s)) (assets s))"
  by (simp_all add: applyFiltersAndSort_eq Let_def)

section \<open>The bounds of the spec and the bounds of the code\<close>

lemma spec_min_bound_eq: "spec_min_bound s = min_bound s"
  by (cases "parseFloat (minPriceInput_value s)")
     (simp_all add: spec_min_bound_def min_bound_def logical_or_def)

lemma spec_max_bound_eq:
  "parseFloat (maxPriceInput_value s) \<noteq> Fin 0 \<Longrightarrow> spec_max_bound s = max_bound s"
  by (cases "parseFloat (maxPriceInput_value s)")
     (simp_all add: spec_max_bound_def max_bound_def logical_or_def)

lemma spec_price_in_range_eq:
  "parseFloat (maxPriceInput_value s) \<noteq> Fin 0 \<Longrightarrow>
   spec_price_in_range s a = price_in_range (min_bound s) (max_bound s) a"
  by (simp add: spec_price_in_range_def price_in_range_def js_ge_def spec_min_bound_eq
        spec_max_bound_eq)

lemma spec_bounds_applyFiltersAndSort:
  "spec_min_bound (applyFiltersAndSort rt s) = spec_min_bound s"
  "spec_max_bound (applyFiltersAndSort rt s) = spec_max_bound s"
  by (simp_all add: spec_min_bound_def spec_max_bound_def applyFiltersAndSort_keeps)

lemma default_order_filters_by_code_bounds:
  "sortOrder s = Default \<Longrightarrow>
   displayAssets (applyFiltersAndSort rt s) =
     filter (\<lambda>a. js_le (min_bound s) (current_price a) \<and> js_le (current_price a) (max_bound s))
       (assets s)"
  by (simp add: applyFiltersAndSort_eq Let_def price_in_range_def js_ge_def cong: filter_cong)

lemma default_order_filters_by_spec_bounds:
  "sortOrder s = Default \<Longrightarrow> parseFloat (maxPriceInput_value s) \<noteq> Fin 0 \<Longrightarrow>
   displayAssets (applyFiltersAndSort rt s) = filter (spec_price_in_range s) (assets s)"
  by (simp add: applyFiltersAndSort_eq Let_def spec_price_in_range_eq cong: filter_cong)

lemma base_list_kept:
  "assets (applyFiltersAndSort rt s) = assets s"
  "assets (cycleSort rt s) = assets s"
  "assets (clearFilters rt s) = assets s"
  "assets (renderAssets rt s) = assets s"
  "assets (toggleTheme s) = assets s"
  by (simp_all add: cycleSort_def clearFilters_def applyFiltersAndSort_keeps renderAssets_eq
        toggleTheme_def Let_def)

lemma display_from_base:
  "\<forall>a \<in> set (displayAssets (applyFiltersAndSort rt s)).
     a \<in> set (assets s) \<and> js_le (min_bound s) (current_price a) \<and>
     js_le (current_price a) (max_bound s)"
  by (simp add: set_displayAssets price_in_range_def js_ge_def)

lemma display_within_base_unless_zero_maximum:
  assumes "parseFloat (maxPriceInput_value s) \<noteq> Fin 0"
  shows "display_within_base (applyFiltersAndSort rt s)"
proof -
  have "spec_price_in_range (applyFiltersAndSort rt s) a
          = price_in_range (min_bound s) (max_bound s) a" for a
    using spec_price_in_range_eq [OF assms, of a]
    by (simp add: spec_price_in_range_def spec_bounds_applyFiltersAndSort)
  then show ?thesis
    by (simp add: display_within_base_def list_all_iff set_displayAssets applyFiltersAndSort_keeps)
qed

lemma display_within_base_clearFilters: "display_within_base (clearFilters rt s)"
  unfolding clearFilters_def
  by (rule display_within_base_unless_zero_maximum) (simp add: parseFloat_empty)

section \<open>The claims\<close>

text \<open>
  C1, at the maximum input \<open>0\<close>. With the minimum input empty, the default sort mode and
  a base list of three assets priced 5, 0 and 2, the bounds that the inputs give are
  \<open>0 <= current_price <= 0\<close>, and the base list restricted to them is the asset priced
  0 alone. The display list that \<open>applyFiltersAndSort\<close> leaves is the whole base list:
  the maximum 0 is not applied.
\<close>

theorem default_order_ignores_zero_maximum:
  "sortOrder (listing [coin ''a'' (Fin 5) (Fin 1), coin ''b'' (Fin 0) (Fin 1),
                       coin ''c'' (Fin 2) (Fin 1)] [] ''0'' Default) = Default \<and>
   spec_min_bound (listing [coin ''a'' (Fin 5) (Fin 1), coin ''b'' (Fin 0) (Fin 1),
                            coin ''c'' (Fin 2) (Fin 1)] [] ''0'' Default) = Fin 0 \<and>
   spec_max_bound (listing [coin ''a'' (Fin 5) (Fin 1), coin ''b'' (Fin 0) (Fin 1),
                            coin ''c'' (Fin 2) (Fin 1)] [] ''0'' Default) = Fin 0 \<and>
   filter (spec_price_in_range (listing [coin ''a'' (Fin 5) (Fin 1), coin ''b'' (Fin 0) (Fin 1),
                                         coin ''c'' (Fin 2) (Fin 1)] [] ''0'' Default))
     (assets (listing [coin ''a'' (Fin 5) (Fin 1), coin ''b'' (Fin 0) (Fin 1),
                       coin ''c'' (Fin 2) (Fin 1)] [] ''0'' Default))
     = [coin ''b'' (Fin 0) (Fin 1)] \<and>
   displayAssets (applyFiltersAndSort plain_runtime
     (listing [coin ''a'' (Fin 5) (Fin 1), coin ''b'' (Fin 0) (Fin 1),
               coin ''c'' (Fin 2) (Fin 1)] [] ''0'' Default))
     = [coin ''a'' (Fin 5) (Fin 1), coin ''b'' (Fin 0) (Fin 1), coin ''c'' (Fin 2) (Fin 1)]"
proof -
  let ?p = "listing [coin ''a'' (Fin 5) (Fin 1), coin ''b'' (Fin 0) (Fin 1),
                     coin ''c'' (Fin 2) (Fin 1)] [] ''0'' Default"
  have mode: "sortOrder ?p = Default"
    and base: "assets ?p = [coin ''a'' (Fin 5) (Fin 1), coin ''b'' (Fin 0) (Fin 1),
                            coin ''c'' (Fin 2) (Fin 1)]"
    by (simp_all add: listing_def)
  have spec: "spec_min_bound ?p = Fin 0" "spec_max_bound ?p = Fin 0"
    by (simp_all add: spec_min_bound_def spec_max_bound_def parseFloat_empty parseFloat_zero
          listing_def)
  have code: "min_bound ?p = Fin 0" "max_bound ?p = PosInf"
    by (simp_all add: min_bound_def max_bound_def logical_or_def parseFloat_empty parseFloat_zero
          listing_def)
  have prices: "current_price (coin ''a'' (Fin 5) (Fin 1)) = Fin 5"
    "current_price (coin ''b'' (Fin 0) (Fin 1)) = Fin 0"
    "current_price (coin ''c'' (Fin 2) (Fin 1)) = Fin 2"
    by (simp_all add: coin_def)
  have wanted: "filter (spec_price_in_range ?p) (assets ?p) = [coin ''b'' (Fin 0) (Fin 1)]"
    by (simp add: base spec_price_in_range_def spec prices)
  have shown: "displayAssets (applyFiltersAndSort plain_runtime ?p)
      = [coin ''a'' (Fin 5) (Fin 1), coin ''b'' (Fin 0) (Fin 1), coin ''c'' (Fin 2) (Fin 1)]"
    by (simp add: default_order_filters_by_code_bounds [OF mode] base code prices)
  show ?thesis
    using mode spec wanted shown by simp
qed

text \<open>
  C2, at the maximum input \<open>0\<close>. The minimum is the parsed number unless the parse is
  \<open>NaN\<close>, where it is 0; the maximum is the parsed number unless the parse is \<open>NaN\<close> or
  zero, where it is \<open>Infinity\<close>. The input \<open>0\<close> is numeric, \<open>parseFloat\<close> gives the
  number 0, and \<open>0 || Infinity\<close> is \<open>Infinity\<close>: the upper bound is not 0 but absent,
  and an asset priced 5 stays in the display list.
\<close>

theorem zero_maximum_is_no_bound:
  "min_bound s = (if parseFloat (minPriceInput_value s) = NaN then Fin 0
                  else parseFloat (minPriceInput_value s)) \<and>
   max_bound s = (if parseFloat (maxPriceInput_value s) = NaN \<or>
                     parseFloat (maxPriceInput_value s) = Fin 0 then PosInf
                  else parseFloat (maxPriceInput_value s)) \<and>
   parseFloat ''0'' = Fin 0 \<and>
   max_bound (listing [coin ''a'' (Fin 5) (Fin 1)] [] ''0'' Default) = PosInf \<and>
   displayAssets (applyFiltersAndSort plain_runtime
     (listing [coin ''a'' (Fin 5) (Fin 1)] [] ''0'' Default)) = [coin ''a'' (Fin 5) (Fin 1)]"
proof -
  let ?p = "listing [coin ''a'' (Fin 5) (Fin 1)] [] ''0'' Default"
  have lower: "min_bound s = (if parseFloat (minPriceInput_value s) = NaN then Fin 0
                              else parseFloat (minPriceInput_value s))"
    by (cases "parseFloat (minPriceInput_value s)") (simp_all add: min_bound_def logical_or_def)
  have upper: "max_bound s = (if parseFloat (maxPriceInput_value s) = NaN \<or>
                                 parseFloat (maxPriceInput_value s) = Fin 0 then PosInf
                              else parseFloat (maxPriceInput_value s))"
    by (cases "parseFloat (maxPriceInput_value s)") (simp_all add: max_bound_def logical_or_def)
  have bounds: "min_bound ?p = Fin 0" "max_bound ?p = PosInf"
    by (simp_all add: min_bound_def max_bound_def logical_or_def parseFloat_empty parseFloat_zero
          listing_def)
  have mode: "sortOrder ?p = Default" and base: "assets ?p = [coin ''a'' (Fin 5) (Fin 1)]"
    by (simp_all add: listing_def)
  have price: "current_price (coin ''a'' (Fin 5) (Fin 1)) = Fin 5"
    by (simp add: coin_def)
  have "displayAssets (applyFiltersAndSort plain_runtime ?p) = [coin ''a'' (Fin 5) (Fin 1)]"
    by (simp add: applyFiltersAndSort_eq Let_def mode base bounds price_in_range_def js_ge_def price)
  then show ?thesis
    using lower upper bounds parseFloat_zero by simp
qed

text \<open>
  C3, at the page at load. With no theme attribute and nothing stored the page is in
  light mode, the sun icon visible. The first call of \<open>toggleTheme\<close> does not flip it:
  it sets the attribute and the stored value to \<open>light\<close> and leaves both icons as they
  were. The second call sets dark. So after two calls the attribute and the stored
  value are \<open>dark\<close>, the sun icon is hidden and the moon icon visible, none of which was
  so before the first call.
\<close>

theorem toggle_twice_from_load:
  "body_data_theme page_at_load = None \<and> localStorage_theme page_at_load = None \<and>
   sunIcon_hidden page_at_load = False \<and> moonIcon_hidden page_at_load = True \<and>
   body_data_theme (toggleTheme page_at_load) = Some ''light'' \<and>
   localStorage_theme (toggleTheme page_at_load) = Some ''light'' \<and>
   sunIcon_hidden (toggleTheme page_at_load) = False \<and>
   moonIcon_hidden (toggleTheme page_at_load) = True \<and>
   body_data_theme (toggleTheme (toggleTheme page_at_load)) = Some ''dark'' \<and>
   localStorage_theme (toggleTheme (toggleTheme page_at_load)) = Some ''dark'' \<and>
   sunIcon_hidden (toggleTheme (toggleTheme page_at_load)) = True \<and>
   moonIcon_hidden (toggleTheme (toggleTheme page_at_load)) = False"
proof -
  have fresh: "body_data_theme page_at_load \<noteq> Some ''light''"
    by (simp add: page_at_load_def)
  have once: "toggleTheme page_at_load =
      page_at_load\<lparr>body_data_theme := Some ''light'', localStorage_theme := Some ''light'',
                    sunIcon_hidden := False, moonIcon_hidden := True\<rparr>"
    by (rule toggleTheme_other [OF fresh])
  have twice: "toggleTheme (toggleTheme page_at_load) =
      page_at_load\<lparr>body_data_theme := Some ''dark'', localStorage_theme := Some ''dark'',
                    sunIcon_hidden := True, moonIcon_hidden := False\<rparr>"
    by (simp add: once toggleTheme_light)
  have load: "body_data_theme page_at_load = None" "localStorage_theme page_at_load = None"
    "sunIcon_hidden page_at_load = False" "moonIcon_hidden page_at_load = True"
    by (simp_all add: page_at_load_def)
  have first: "body_data_theme (toggleTheme page_at_load) = Some ''light''"
    "localStorage_theme (toggleTheme page_at_load) = Some ''light''"
    "sunIcon_hidden (toggleTheme page_at_load) = False"
    "moonIcon_hidden (toggleTheme page_at_load) = True"
    by (simp_all add: once)
  have second: "body_data_theme (toggleTheme (toggleTheme page_at_load)) = Some ''dark''"
    "localStorage_theme (toggleTheme (toggleTheme page_at_load)) = Some ''dark''"
    "sunIcon_hidden (toggleTheme (toggleTheme page_at_load)) = True"
    "moonIcon_hidden (toggleTheme (toggleTheme page_at_load)) = False"
    by (simp_all add: twice)
  show ?thesis
    using load first second by simp
qed

text \<open>
  C4, as stated, fails: with both bounds absent and the ascending mode, a base list
  that holds an asset priced -1 and an asset priced 3 gives a display list with the
  second asset only, which is no permutation of the base list.
\<close>

theorem sorted_display_drops_negative_price:
  "displayAssets (applyFiltersAndSort plain_runtime
     (listing [coin ''a'' (Fin (- 1)) (Fin 1), coin ''b'' (Fin 3) (Fin 1)] [] [] Asc))
     = [coin ''b'' (Fin 3) (Fin 1)] \<and>
   mset (displayAssets (applyFiltersAndSort plain_runtime
     (listing [coin ''a'' (Fin (- 1)) (Fin 1), coin ''b'' (Fin 3) (Fin 1)] [] [] Asc)))
     \<noteq> mset (assets
     (listing [coin ''a'' (Fin (- 1)) (Fin 1), coin ''b'' (Fin 3) (Fin 1)] [] [] Asc))"
proof -
  let ?p = "listing [coin ''a'' (Fin (- 1)) (Fin 1), coin ''b'' (Fin 3) (Fin 1)] [] [] Asc"
  have base: "assets ?p = [coin ''a'' (Fin (- 1)) (Fin 1), coin ''b'' (Fin 3) (Fin 1)]"
    and mode: "sortOrder ?p = Asc"
    by (simp_all add: listing_def)
  have bounds: "min_bound ?p = Fin 0" "max_bound ?p = PosInf"
    by (simp_all add: absent_bounds listing_def)
  have prices: "current_price (coin ''a'' (Fin (- 1)) (Fin 1)) = Fin (- 1)"
    "current_price (coin ''b'' (Fin 3) (Fin 1)) = Fin 3"
    by (simp_all add: coin_def)
  have shown: "displayAssets (applyFiltersAndSort plain_runtime ?p) = [coin ''b'' (Fin 3) (Fin 1)]"
    by (simp add: displayAssets_sorted_modes(1) [OF mode] base bounds price_in_range_absent prices
          array_sort_Cons array_sort_Nil)
  have "size (mset [coin ''b'' (Fin 3) (Fin 1)])
          \<noteq> size (mset [coin ''a'' (Fin (- 1)) (Fin 1), coin ''b'' (Fin 3) (Fin 1)])"
    by simp
  then have "mset [coin ''b'' (Fin 3) (Fin 1)]
          \<noteq> mset [coin ''a'' (Fin (- 1)) (Fin 1), coin ''b'' (Fin 3) (Fin 1)]"
    by metis
  then show ?thesis
    by (simp only: shown base) simp
qed

text \<open>
  C4, amended. With both bounds absent, in the ascending and in the descending mode the
  display list is a permutation of the assets of the base list whose price is at least
  0, and of the whole base list when every price is at least 0. Its prices are
  non-decreasing in the ascending mode and non-increasing in the descending mode, and
  the sort is stable: the assets of any one price stand in the order they have in the
  filtered base list.
\<close>

theorem sorted_display_is_stable_permutation:
  assumes "minPriceInput_value s = []" and "maxPriceInput_value s = []"
  shows
    "(sortOrder s = Asc \<or> sortOrder s = Desc \<longrightarrow>
        mset (displayAssets (applyFiltersAndSort rt s))
          = mset (filter (\<lambda>a. js_le (Fin 0) (current_price a)) (assets s)) \<and>
        (\<forall>p. filter (\<lambda>a. current_price a = p) (displayAssets (applyFiltersAndSort rt s))
              = filter (\<lambda>a. current_price a = p)
                  (filter (\<lambda>a. js_le (Fin 0) (current_price a)) (assets s))) \<and>
        ((\<forall>a \<in> set (assets s). js_le (Fin 0) (current_price a)) \<longrightarrow>
           mset (displayAssets (applyFiltersAndSort rt s)) = mset (assets s) \<and>
           (\<forall>p. filter (\<lambda>a. current_price a = p) (displayAssets (applyFiltersAndSort rt s))
                 = filter (\<lambda>a. current_price a = p) (assets s)))) \<and>
     (sortOrder s = Asc \<longrightarrow>
        sorted_wrt (\<lambda>a b. js_le (current_price a) (current_price b))
          (displayAssets (applyFiltersAndSort rt s))) \<and>
     (sortOrder s = Desc \<longrightarrow>
        sorted_wrt (\<lambda>a b. js_le (current_price b) (current_price a))
          (displayAssets (applyFiltersAndSort rt s)))"
proof -
  let ?kept = "filter (\<lambda>a. js_le (Fin 0) (current_price a)) (assets s)"
  let ?d = "displayAssets (applyFiltersAndSort rt s)"
  have bounds: "min_bound s = Fin 0" "max_bound s = PosInf"
    using assms by (simp_all add: absent_bounds)
  have asc: "?d = array_sort (\<lambda>a b. js_sub (current_price a) (current_price b)) ?kept"
    if "sortOrder s = Asc"
    by (simp add: displayAssets_sorted_modes(1) [OF that] bounds filter_absent_bounds)
  have desc: "?d = array_sort (\<lambda>a b. js_sub (current_price b) (current_price a)) ?kept"
    if "sortOrder s = Desc"
    by (simp add: displayAssets_sorted_modes(2) [OF that] bounds filter_absent_bounds)
  have numbers: "\<forall>a \<in> set ?kept. current_price a \<noteq> NaN"
    using js_le_not_NaN by auto
  have perm: "mset ?d = mset ?kept" if "sortOrder s = Asc \<or> sortOrder s = Desc"
    using that asc desc by (auto simp: mset_array_sort)
  have stable: "filter (\<lambda>a. current_price a = p) ?d = filter (\<lambda>a. current_price a = p) ?kept"
    if "sortOrder s = Asc \<or> sortOrder s = Desc" for p
    using that asc desc stable_ascending [of p ?kept] stable_descending [of p ?kept] by auto
  have whole: "?kept = assets s" if "\<forall>a \<in> set (assets s). js_le (Fin 0) (current_price a)"
    using that by simp
  have up: "sorted_wrt (\<lambda>a b. js_le (current_price a) (current_price b)) ?d"
    if "sortOrder s = Asc"
    using sorted_ascending [OF numbers] asc [OF that] by simp
  have down: "sorted_wrt (\<lambda>a b. js_le (current_price b) (current_price a)) ?d"
    if "sortOrder s = Desc"
    using sorted_descending [OF numbers] desc [OF that] by simp
  show ?thesis
  proof (intro conjI impI allI)
    assume m: "sortOrder s = Asc \<or> sortOrder s = Desc"
    show "mset ?d = mset ?kept" by (rule perm [OF m])
    show "filter (\<lambda>a. current_price a = p) ?d = filter (\<lambda>a. current_price a = p) ?kept" for p
      by (rule stable [OF m])
    assume w: "\<forall>a \<in> set (assets s). js_le (Fin 0) (current_price a)"
    show "mset ?d = mset (assets s)"
      using perm [OF m] whole [OF w] by simp
    show "filter (\<lambda>a. current_price a = p) ?d = filter (\<lambda>a. current_price a = p) (assets s)" for p
      using stable [OF m, of p] whole [OF w] by simp
  next
    assume "sortOrder s = Asc"
    then show "sorted_wrt (\<lambda>a b. js_le (current_price a) (current_price b)) ?d" by (rule up)
  next
    assume "sortOrder s = Desc"
    then show "sorted_wrt (\<lambda>a b. js_le (current_price b) (current_price a)) ?d" by (rule down)
  qed
qed

theorem sorted_display_is_stable_permutation_witness:
  "minPriceInput_value (listing [coin ''a'' (Fin 3) (Fin 1), coin ''b'' (Fin 1) (Fin 1),
      coin ''c'' (Fin 3) (Fin 2)] [] [] Desc) = [] \<and>
   maxPriceInput_value (listing [coin ''a'' (Fin 3) (Fin 1), coin ''b'' (Fin 1) (Fin 1),
      coin ''c'' (Fin 3) (Fin 2)] [] [] Desc) = [] \<and>
   sortOrder (listing [coin ''a'' (Fin 3) (Fin 1), coin ''b'' (Fin 1) (Fin 1),
      coin ''c'' (Fin 3) (Fin 2)] [] [] Desc) = Desc \<and>
   mset (displayAssets (applyFiltersAndSort plain_runtime
     (listing [coin ''a'' (Fin 3) (Fin 1), coin ''b'' (Fin 1) (Fin 1),
        coin ''c'' (Fin 3) (Fin 2)] [] [] Desc)))
     = mset [coin ''a'' (Fin 3) (Fin 1), coin ''b'' (Fin 1) (Fin 1), coin ''c'' (Fin 3) (Fin 2)] \<and>
   sorted_wrt (\<lambda>a b. js_le (current_price b) (current_price a))
     (displayAssets (applyFiltersAndSort plain_runtime
       (listing [coin ''a'' (Fin 3) (Fin 1), coin ''b'' (Fin 1) (Fin 1),
          coin ''c'' (Fin 3) (Fin 2)] [] [] Desc))) \<and>
   displayAssets (applyFiltersAndSort plain_runtime
     (listing [coin ''a'' (Fin 3) (Fin 1), coin ''b'' (Fin 1) (Fin 1),
        coin ''c'' (Fin 3) (Fin 2)] [] [] Desc))
     = [coin ''a'' (Fin 3) (Fin 1), coin ''c'' (Fin 3) (Fin 2), coin ''b'' (Fin 1) (Fin 1)]"
proof -
  let ?p = "listing [coin ''a'' (Fin 3) (Fin 1), coin ''b'' (Fin 1) (Fin 1),
              coin ''c'' (Fin 3) (Fin 2)] [] [] Desc"
  have h: "minPriceInput_value ?p = []" "maxPriceInput_value ?p = []"
    by (simp_all add: listing_def)
  have mode: "sortOrder ?p = Desc"
    and base: "assets ?p = [coin ''a'' (Fin 3) (Fin 1), coin ''b'' (Fin 1) (Fin 1),
                            coin ''c'' (Fin 3) (Fin 2)]"
    by (simp_all add: listing_def)
  have prices: "current_price (coin ''a'' (Fin 3) (Fin 1)) = Fin 3"
    "current_price (coin ''b'' (Fin 1) (Fin 1)) = Fin 1"
    "current_price (coin ''c'' (Fin 3) (Fin 2)) = Fin 3"
    by (simp_all add: coin_def)
  have nonneg: "\<forall>a \<in> set [coin ''a'' (Fin 3) (Fin 1), coin ''b'' (Fin 1) (Fin 1),
                      coin ''c'' (Fin 3) (Fin 2)]. js_le (Fin 0) (current_price a)"
    by (simp add: prices)
  have shown: "displayAssets (applyFiltersAndSort plain_runtime ?p)
      = [coin ''a'' (Fin 3) (Fin 1), coin ''c'' (Fin 3) (Fin 2), coin ''b'' (Fin 1) (Fin 1)]"
    by (simp add: displayAssets_sorted_modes(2) [OF mode] base absent_bounds h
          price_in_range_absent prices array_sort_Cons array_sort_Nil comes_after_def)
  show ?thesis
    using sorted_display_is_stable_permutation [OF h, of plain_runtime] h mode nonneg
    by (simp only: base shown) simp
qed

text \<open>
  C5. \<open>cycleSort\<close> moves the sort mode along the rotation default, descending,
  ascending, default, and writes the label \<open>Sort: High to Low\<close> for descending,
  \<open>Sort: Low to High\<close> for ascending and \<open>Sort: Default\<close> for default. Three calls
  leave the base list and both bound inputs alone and return the mode; the label is
  then the one of that mode and the display list the one \<open>applyFiltersAndSort\<close> gives
  for that mode, base list and bounds. So from a page that shows the label of its mode
  and the display list of its mode, base list and bounds, the mode, the label and the
  display list are back at their values before the first call.
\<close>

theorem cycleSort_rotation:
  "(sortOrder s = Default \<longrightarrow>
      sortOrder (cycleSort rt s) = Desc \<and>
      sortLabel_textContent (cycleSort rt s) = ''Sort: High to Low'') \<and>
   (sortOrder s = Desc \<longrightarrow>
      sortOrder (cycleSort rt s) = Asc \<and>
      sortLabel_textContent (cycleSort rt s) = ''Sort: Low to High'') \<and>
   (sortOrder s = Asc \<longrightarrow>
      sortOrder (cycleSort rt s) = Default \<and>
      sortLabel_textContent (cycleSort rt s) = ''Sort: Default'') \<and>
   sortOrder (cycleSort rt (cycleSort rt (cycleSort rt s))) = sortOrder s \<and>
   assets (cycleSort rt (cycleSort rt (cycleSort rt s))) = assets s \<and>
   minPriceInput_value (cycleSort rt (cycleSort rt (cycleSort rt s))) = minPriceInput_value s \<and>
   maxPriceInput_value (cycleSort rt (cycleSort rt (cycleSort rt s))) = maxPriceInput_value s \<and>
   sortLabel_textContent (cycleSort rt (cycleSort rt (cycleSort rt s))) = label_for (sortOrder s) \<and>
   displayAssets (cycleSort rt (cycleSort rt (cycleSort rt s)))
     = displayAssets (applyFiltersAndSort rt s) \<and>
   (sortLabel_textContent s = label_for (sortOrder s) \<and>
    displayAssets s = displayAssets (applyFiltersAndSort rt s) \<longrightarrow>
      sortOrder (cycleSort rt (cycleSort rt (cycleSort rt s))) = sortOrder s \<and>
      sortLabel_textContent (cycleSort rt (cycleSort rt (cycleSort rt s)))
        = sortLabel_textContent s \<and>
      displayAssets (cycleSort rt (cycleSort rt (cycleSort rt s))) = displayAssets s)"
proof -
  have step:
    "sortOrder s = Default \<longrightarrow>
       sortOrder (cycleSort rt s) = Desc \<and>
       sortLabel_textContent (cycleSort rt s) = ''Sort: High to Low''"
    "sortOrder s = Desc \<longrightarrow>
       sortOrder (cycleSort rt s) = Asc \<and>
       sortLabel_textContent (cycleSort rt s) = ''Sort: Low to High''"
    "sortOrder s = Asc \<longrightarrow>
       sortOrder (cycleSort rt s) = Default \<and>
       sortLabel_textContent (cycleSort rt s) = ''Sort: Default''"
    by (simp_all add: cycleSort_from applyFiltersAndSort_keeps)
  have three:
    "sortOrder (cycleSort rt (cycleSort rt (cycleSort rt s))) = sortOrder s"
    "assets (cycleSort rt (cycleSort rt (cycleSort rt s))) = assets s"
    "minPriceInput_value (cycleSort rt (cycleSort rt (cycleSort rt s))) = minPriceInput_value s"
    "maxPriceInput_value (cycleSort rt (cycleSort rt (cycleSort rt s))) = maxPriceInput_value s"
    "sortLabel_textContent (cycleSort rt (cycleSort rt (cycleSort rt s))) = label_for (sortOrder s)"
    "displayAssets (cycleSort rt (cycleSort rt (cycleSort rt s)))
       = displayAssets (applyFiltersAndSort rt s)"
    by (simp_all add: cycleSort_thrice applyFiltersAndSort_keeps displayAssets_ignores_label)
  show ?thesis
    using step three by simp
qed

theorem cycleSort_rotation_witness:
  "sortLabel_textContent (applyFiltersAndSort plain_runtime
      (listing [coin ''a'' (Fin 2) (Fin 1), coin ''b'' (Fin 7) (Fin 1)] [] [] Desc))
     = label_for (sortOrder (applyFiltersAndSort plain_runtime
      (listing [coin ''a'' (Fin 2) (Fin 1), coin ''b'' (Fin 7) (Fin 1)] [] [] Desc))) \<and>
   sortOrder (listing [coin ''a'' (Fin 2) (Fin 1), coin ''b'' (Fin 7) (Fin 1)] [] [] Desc) = Desc \<and>
   sortOrder (cycleSort plain_runtime (applyFiltersAndSort plain_runtime
      (listing [coin ''a'' (Fin 2) (Fin 1), coin ''b'' (Fin 7) (Fin 1)] [] [] Desc))) = Asc \<and>
   displayAssets (cycleSort plain_runtime (cycleSort plain_runtime (cycleSort plain_runtime
     (applyFiltersAndSort plain_runtime
        (listing [coin ''a'' (Fin 2) (Fin 1), coin ''b'' (Fin 7) (Fin 1)] [] [] Desc)))))
     = displayAssets (applyFiltersAndSort plain_runtime
        (listing [coin ''a'' (Fin 2) (Fin 1), coin ''b'' (Fin 7) (Fin 1)] [] [] Desc)) \<and>
   sortLabel_textContent (cycleSort plain_runtime (cycleSort plain_runtime (cycleSort plain_runtime
     (applyFiltersAndSort plain_runtime
        (listing [coin ''a'' (Fin 2) (Fin 1), coin ''b'' (Fin 7) (Fin 1)] [] [] Desc)))))
     = ''Sort: High to Low''"
proof -
  let ?p = "listing [coin ''a'' (Fin 2) (Fin 1), coin ''b'' (Fin 7) (Fin 1)] [] [] Desc"
  let ?s = "applyFiltersAndSort plain_runtime ?p"
  have mode: "sortOrder ?p = Desc" "sortOrder ?s = Desc"
    by (simp_all add: applyFiltersAndSort_keeps listing_def)
  have label: "sortLabel_textContent ?s = ''Sort: High to Low''"
    by (simp add: applyFiltersAndSort_keeps listing_def)
  have shown: "displayAssets ?s = displayAssets (applyFiltersAndSort plain_runtime ?s)"
    by (simp add: applyFiltersAndSort_idem)
  show ?thesis
    using cycleSort_rotation [of ?s plain_runtime] mode label shown by simp
qed

text \<open>
  C6. Before the request \<open>fetchAssets\<close> shows the loading indicator and leaves the
  base list alone; when the request has come back it hides the indicator, whatever the
  outcome and whatever other handlers did to the page meanwhile. When the request
  failed (it was rejected, the status is not a success, or the body does not parse),
  the base list is as it was before the call, the generic message is the error text and
  the error banner is visible; nothing else of the page but the indicator and the grid's
  visibility changes.
\<close>

theorem failed_fetch_keeps_base_list:
  "loader_hidden (fetchAssets_begin s) = False \<and>
   assets (fetchAssets_begin s) = assets s \<and>
   loader_hidden (fetchAssets_complete rt fetched s') = True \<and>
   loader_hidden (fetchAssets rt fetched s) = True \<and>
   (fetch_failed fetched \<longrightarrow>
      assets (fetchAssets_complete rt fetched s') = assets s' \<and>
      assets (fetchAssets rt fetched s) = assets s \<and>
      displayAssets (fetchAssets rt fetched s) = displayAssets s \<and>
      errorText_textContent (fetchAssets rt fetched s) = fetch_error_message \<and>
      errorContainer_hidden (fetchAssets rt fetched s) = False \<and>
      fetchAssets rt fetched s =
        s\<lparr>errorText_textContent := fetch_error_message, errorContainer_hidden := False,
          loader_hidden := True, assetGrid_hidden := False\<rparr>)"
proof -
  have hidden: "loader_hidden (fetchAssets_complete rt fetched t) = True" for t
    using fetch_cases [of fetched]
    by (auto simp: fetchAssets_complete_failed fetchAssets_complete_succeeded)
  have failed: "fetchAssets rt fetched s =
        s\<lparr>errorText_textContent := fetch_error_message, errorContainer_hidden := False,
          loader_hidden := True, assetGrid_hidden := False\<rparr>" if "fetch_failed fetched"
    using that by (simp add: fetchAssets_def fetchAssets_complete_failed fetchAssets_begin_eq)
  have "fetch_failed fetched \<longrightarrow> assets (fetchAssets_complete rt fetched s') = assets s'"
    by (simp add: fetchAssets_complete_failed)
  moreover have "loader_hidden (fetchAssets_begin s) = False \<and> assets (fetchAssets_begin s) = assets s"
    by (simp add: fetchAssets_begin_eq)
  ultimately show ?thesis
    using hidden [of s'] hidden [of "fetchAssets_begin s"] failed
    by (simp add: fetchAssets_def [symmetric])
qed

theorem failed_fetch_keeps_base_list_witness:
  "assets (fetchAssets plain_runtime
     (Some \<lparr>ok = False, status = 500, statusText = ''Internal Server Error'', body_json = None\<rparr>)
     (listing [coin ''a'' (Fin 2) (Fin 1)] [] [] Default)) = [coin ''a'' (Fin 2) (Fin 1)] \<and>
   errorText_textContent (fetchAssets plain_runtime
     (Some \<lparr>ok = False, status = 500, statusText = ''Internal Server Error'', body_json = None\<rparr>)
     (listing [coin ''a'' (Fin 2) (Fin 1)] [] [] Default)) = fetch_error_message \<and>
   loader_hidden (fetchAssets plain_runtime
     (Some \<lparr>ok = False, status = 500, statusText = ''Internal Server Error'', body_json = None\<rparr>)
     (listing [coin ''a'' (Fin 2) (Fin 1)] [] [] Default)) = True"
proof -
  let ?f = "Some \<lparr>ok = False, status = 500, statusText = ''Internal Server Error'',
                   body_json = None :: asset list option\<rparr>"
  let ?p = "listing [coin ''a'' (Fin 2) (Fin 1)] [] [] Default"
  have h: "fetch_failed ?f"
    by (simp add: fetch_failed_def)
  have base: "assets ?p = [coin ''a'' (Fin 2) (Fin 1)]"
    by (simp add: listing_def)
  show ?thesis
    using failed_fetch_keeps_base_list [of ?p plain_runtime ?f ?p] h base by simp
qed

text \<open>
  C7, as stated, fails: a 24-hour change of \<open>Infinity\<close> (the number that JSON text such
  as \<open>1e999\<close> parses to) is printed by \<open>toFixed(2)\<close> as \<open>Infinity\<close>, so the card of
  such an asset shows \<open>+Infinity%\<close>; and a change of \<open>10^21\<close> is printed as
  Number::toString prints it, \<open>+1e+21%\<close>. Neither text has a decimal place.
\<close>

theorem unbounded_change_has_no_decimals:
  "assetGrid_children (renderAssets plain_runtime
     (page_at_load\<lparr>displayAssets := [coin ''a'' (Fin 1) PosInf]\<rparr>))
     = [AssetCard (asset_card plain_runtime (coin ''a'' (Fin 1) PosInf))] \<and>
   change_text (asset_card plain_runtime (coin ''a'' (Fin 1) PosInf)) = ''+Infinity%'' \<and>
   \<not> two_decimal_places (change_text (asset_card plain_runtime (coin ''a'' (Fin 1) PosInf))) \<and>
   change_text (asset_card plain_runtime (coin ''b'' (Fin 1) (Fin (10 ^ 21)))) = ''+1e+21%'' \<and>
   \<not> two_decimal_places
       (change_text (asset_card plain_runtime (coin ''b'' (Fin 1) (Fin (10 ^ 21)))))"
proof -
  have printed: "change_text (asset_card plain_runtime (coin ''a'' (Fin 1) PosInf)) = ''+Infinity%''"
    by (simp add: asset_card_def coin_def Let_def js_ge_def toFixed_def)
  have large: "change_text (asset_card plain_runtime (coin ''b'' (Fin 1) (Fin (10 ^ 21)))) = ''+1e+21%''"
    by (simp add: asset_card_def coin_def Let_def js_ge_def toFixed_def plain_runtime_def
          example_numberToString_def)
  have "\<not> two_decimal_places ''+Infinity%''" "\<not> two_decimal_places ''+1e+21%''"
    by (simp_all add: two_decimal_places_def is_digit_def)
  then show ?thesis
    using printed large by (simp add: renderAssets_eq)
qed

text \<open>
  C7, amended. For an empty display list \<open>renderAssets\<close> leaves exactly the no-results
  paragraph in the grid and no card; otherwise it leaves one card per asset, in the order
  of the display list; in both cases whatever the grid held before is gone. On the card
  of an asset the colour of the change is \<open>positive\<close> exactly when the change is greater
  than or equal to zero and \<open>negative\<close> otherwise, the text of the change starts with
  \<open>+\<close> exactly when the change is greater than or equal to zero, and the change is
  written with exactly two decimal places whenever it is a finite number of magnitude
  below \<open>10^21\<close>.
\<close>

theorem renderAssets_cards:
  "(displayAssets s = [] \<longrightarrow>
      assetGrid_children (renderAssets rt s) = [Paragraph no_assets_message]) \<and>
   (displayAssets s \<noteq> [] \<longrightarrow>
      assetGrid_children (renderAssets rt s)
        = map (\<lambda>a. AssetCard (asset_card rt a)) (displayAssets s)) \<and>
   assetGrid_children (renderAssets rt (s\<lparr>assetGrid_children := g\<rparr>))
     = assetGrid_children (renderAssets rt s) \<and>
   change_color (asset_card rt a) =
     (if js_ge (price_change_percentage_24h a) (Fin 0) then ''var(--positive)''
      else ''var(--negative)'') \<and>
   (take 1 (change_text (asset_card rt a)) = ''+'')
     = js_ge (price_change_percentage_24h a) (Fin 0) \<and>
   (\<forall>q. price_change_percentage_24h a = Fin q \<and> \<bar>q\<bar> < 10 ^ 21 \<longrightarrow>
      two_decimal_places (change_text (asset_card rt a)))"
proof -
  have "assetGrid_children (renderAssets rt (s\<lparr>assetGrid_children := g\<rparr>))
          = assetGrid_children (renderAssets rt s)"
    by (simp add: renderAssets_eq)
  moreover have "\<forall>q. price_change_percentage_24h a = Fin q \<and> \<bar>q\<bar> < 10 ^ 21 \<longrightarrow>
      two_decimal_places (change_text (asset_card rt a))"
    using change_text_two_decimals by blast
  ultimately show ?thesis
    using change_color_class [of rt a] change_text_plus [of rt a]
    by (simp add: renderAssets_eq)
qed

theorem renderAssets_cards_witness:
  "displayAssets (page_at_load\<lparr>displayAssets := [coin ''a'' (Fin 1) (Fin (- 3 / 2))]\<rparr>) \<noteq> [] \<and>
   displayAssets page_at_load = [] \<and>
   price_change_percentage_24h (coin ''a'' (Fin 1) (Fin (- 3 / 2))) = Fin (- 3 / 2) \<and>
   \<bar>- 3 / 2 :: rat\<bar> < 10 ^ 21 \<and>
   assetGrid_children (renderAssets plain_runtime page_at_load) = [Paragraph no_assets_message] \<and>
   assetGrid_children (renderAssets plain_runtime
      (page_at_load\<lparr>displayAssets := [coin ''a'' (Fin 1) (Fin (- 3 / 2))]\<rparr>))
     = [AssetCard (asset_card plain_runtime (coin ''a'' (Fin 1) (Fin (- 3 / 2))))] \<and>
   change_color (asset_card plain_runtime (coin ''a'' (Fin 1) (Fin (- 3 / 2)))) = ''var(--negative)'' \<and>
   two_decimal_places (change_text (asset_card plain_runtime (coin ''a'' (Fin 1) (Fin (- 3 / 2)))))"
proof -
  let ?a = "coin ''a'' (Fin 1) (Fin (- 3 / 2))"
  have shown: "displayAssets (page_at_load\<lparr>displayAssets := [?a]\<rparr>) = [?a]"
    "displayAssets page_at_load = []"
    by (simp_all add: page_at_load_def)
  have change: "price_change_percentage_24h ?a = Fin (- 3 / 2)"
    by (simp add: coin_def)
  have small: "\<bar>- 3 / 2 :: rat\<bar> < 10 ^ 21"
    by simp
  have falls: "\<not> js_ge (Fin (- 3 / 2)) (Fin 0)"
    by (simp add: js_ge_def)
  show ?thesis
    using renderAssets_cards [of "page_at_load\<lparr>displayAssets := [?a]\<rparr>" plain_runtime
        "assetGrid_children page_at_load" ?a]
      renderAssets_cards [of page_at_load plain_runtime "[]" ?a]
      shown change small falls
    by simp
qed

text \<open>
  C8, at the maximum input \<open>0\<close>. With the minimum input empty, the descending mode and
  a base list of two assets priced 5 and 7, \<open>applyFiltersAndSort\<close> leaves the base list
  as it was, and so do \<open>cycleSort\<close>, \<open>clearFilters\<close>, \<open>renderAssets\<close> and
  \<open>toggleTheme\<close>. But the display list then holds both assets, in the order 7, 5, while
  the price range that the inputs give is \<open>0 <= current_price <= 0\<close>: its elements
  are elements of the base list and do not satisfy the active price-range predicate.
\<close>

theorem display_list_exceeds_zero_maximum:
  "assets (applyFiltersAndSort plain_runtime
     (listing [coin ''a'' (Fin 5) (Fin 1), coin ''b'' (Fin 7) (Fin 1)] [] ''0'' Desc))
     = [coin ''a'' (Fin 5) (Fin 1), coin ''b'' (Fin 7) (Fin 1)] \<and>
   assets (cycleSort plain_runtime
     (listing [coin ''a'' (Fin 5) (Fin 1), coin ''b'' (Fin 7) (Fin 1)] [] ''0'' Desc))
     = [coin ''a'' (Fin 5) (Fin 1), coin ''b'' (Fin 7) (Fin 1)] \<and>
   assets (clearFilters plain_runtime
     (listing [coin ''a'' (Fin 5) (Fin 1), coin ''b'' (Fin 7) (Fin 1)] [] ''0'' Desc))
     = [coin ''a'' (Fin 5) (Fin 1), coin ''b'' (Fin 7) (Fin 1)] \<and>
   assets (renderAssets plain_runtime
     (listing [coin ''a'' (Fin 5) (Fin 1), coin ''b'' (Fin 7) (Fin 1)] [] ''0'' Desc))
     = [coin ''a'' (Fin 5) (Fin 1), coin ''b'' (Fin 7) (Fin 1)] \<and>
   assets (toggleTheme
     (listing [coin ''a'' (Fin 5) (Fin 1), coin ''b'' (Fin 7) (Fin 1)] [] ''0'' Desc))
     = [coin ''a'' (Fin 5) (Fin 1), coin ''b'' (Fin 7) (Fin 1)] \<and>
   displayAssets (applyFiltersAndSort plain_runtime
     (listing [coin ''a'' (Fin 5) (Fin 1), coin ''b'' (Fin 7) (Fin 1)] [] ''0'' Desc))
     = [coin ''b'' (Fin 7) (Fin 1), coin ''a'' (Fin 5) (Fin 1)] \<and>
   spec_min_bound (applyFiltersAndSort plain_runtime
     (listing [coin ''a'' (Fin 5) (Fin 1), coin ''b'' (Fin 7) (Fin 1)] [] ''0'' Desc)) = Fin 0 \<and>
   spec_max_bound (applyFiltersAndSort plain_runtime
     (listing [coin ''a'' (Fin 5) (Fin 1), coin ''b'' (Fin 7) (Fin 1)] [] ''0'' Desc)) = Fin 0 \<and>
   spec_price_in_range (applyFiltersAndSort plain_runtime
     (listing [coin ''a'' (Fin 5) (Fin 1), coin ''b'' (Fin 7) (Fin 1)] [] ''0'' Desc))
     (coin ''b'' (Fin 7) (Fin 1)) = False \<and>
   display_within_base (applyFiltersAndSort plain_runtime
     (listing [coin ''a'' (Fin 5) (Fin 1), coin ''b'' (Fin 7) (Fin 1)] [] ''0'' Desc)) = False"
proof -
  let ?p = "listing [coin ''a'' (Fin 5) (Fin 1), coin ''b'' (Fin 7) (Fin 1)] [] ''0'' Desc"
  let ?t = "applyFiltersAndSort plain_runtime ?p"
  have mode: "sortOrder ?p = Desc"
    and base: "assets ?p = [coin ''a'' (Fin 5) (Fin 1), coin ''b'' (Fin 7) (Fin 1)]"
    by (simp_all add: listing_def)
  have "spec_min_bound ?p = Fin 0" "spec_max_bound ?p = Fin 0"
    by (simp_all add: spec_min_bound_def spec_max_bound_def parseFloat_empty parseFloat_zero
          listing_def)
  then have spec: "spec_min_bound ?t = Fin 0" "spec_max_bound ?t = Fin 0"
    by (simp_all only: spec_bounds_applyFiltersAndSort)
  have code: "min_bound ?p = Fin 0" "max_bound ?p = PosInf"
    by (simp_all add: min_bound_def max_bound_def logical_or_def parseFloat_empty parseFloat_zero
          listing_def)
  have prices: "current_price (coin ''a'' (Fin 5) (Fin 1)) = Fin 5"
    "current_price (coin ''b'' (Fin 7) (Fin 1)) = Fin 7"
    by (simp_all add: coin_def)
  have shown: "displayAssets ?t = [coin ''b'' (Fin 7) (Fin 1), coin ''a'' (Fin 5) (Fin 1)]"
    by (simp add: displayAssets_sorted_modes(2) [OF mode] base code price_in_range_def js_ge_def
          prices array_sort_Cons array_sort_Nil comes_after_def)
  have outside: "spec_price_in_range ?t (coin ''b'' (Fin 7) (Fin 1)) = False"
    by (simp add: spec_price_in_range_def spec prices)
  have broken: "display_within_base ?t = False"
    by (simp add: display_within_base_def shown outside)
  show ?thesis
    using shown spec outside broken
    by (simp add: base_list_kept base)
qed

text \<open>
  C9. When \<open>toggleTheme\<close> runs while the theme attribute holds neither \<open>light\<close> nor
  \<open>dark\<close>, the new theme is light: the attribute and the stored value become \<open>light\<close>,
  the sun icon is made visible and the moon icon hidden. So it is on a fresh page, with
  no attribute and nothing stored, once \<open>init\<close> has run: \<open>init\<close> applies nothing there.
\<close>

theorem toggle_from_unset_theme:
  "(body_data_theme s \<noteq> Some ''light'' \<and> body_data_theme s \<noteq> Some ''dark'' \<longrightarrow>
      body_data_theme (toggleTheme s) = Some ''light'' \<and>
      localStorage_theme (toggleTheme s) = Some ''light'' \<and>
      sunIcon_hidden (toggleTheme s) = False \<and> moonIcon_hidden (toggleTheme s) = True) \<and>
   (body_data_theme s = None \<and> localStorage_theme s = None \<longrightarrow>
      body_data_theme (init rt fetched s) = None \<and>
      localStorage_theme (init rt fetched s) = None \<and>
      body_data_theme (toggleTheme (init rt fetched s)) = Some ''light'' \<and>
      localStorage_theme (toggleTheme (init rt fetched s)) = Some ''light'' \<and>
      sunIcon_hidden (toggleTheme (init rt fetched s)) = False \<and>
      moonIcon_hidden (toggleTheme (init rt fetched s)) = True)"
proof -
  have unset: "body_data_theme t \<noteq> Some ''light'' \<Longrightarrow>
      body_data_theme (toggleTheme t) = Some ''light'' \<and>
      localStorage_theme (toggleTheme t) = Some ''light'' \<and>
      sunIcon_hidden (toggleTheme t) = False \<and> moonIcon_hidden (toggleTheme t) = True" for t
    by (simp add: toggleTheme_other)
  have fresh: "body_data_theme (init rt fetched s) = None \<and> localStorage_theme (init rt fetched s) = None"
    if "body_data_theme s = None" "localStorage_theme s = None"
    using that by (simp add: init_def Let_def fetchAssets_theme)
  show ?thesis
    using unset [of s] unset [of "init rt fetched s"] fresh by auto
qed

theorem toggle_from_unset_theme_witness:
  "body_data_theme page_at_load \<noteq> Some ''light'' \<and>
   body_data_theme page_at_load \<noteq> Some ''dark'' \<and>
   body_data_theme page_at_load = None \<and> localStorage_theme page_at_load = None \<and>
   body_data_theme (toggleTheme page_at_load) = Some ''light'' \<and>
   localStorage_theme (toggleTheme page_at_load) = Some ''light'' \<and>
   sunIcon_hidden (toggleTheme page_at_load) = False \<and>
   body_data_theme (toggleTheme (init plain_runtime None page_at_load)) = Some ''light'' \<and>
   localStorage_theme (toggleTheme (init plain_runtime None page_at_load)) = Some ''light''"
proof -
  have h: "body_data_theme page_at_load = None" "localStorage_theme page_at_load = None"
    by (simp_all add: page_at_load_def)
  show ?thesis
    using toggle_from_unset_theme [of page_at_load plain_runtime None] h by simp
qed

text \<open>
  C10. With both bound inputs empty the minimum is the number 0, not an absent bound:
  in every sort mode an asset of the base list whose price is below zero is not in the
  display list that \<open>applyFiltersAndSort\<close> leaves.
\<close>

theorem negative_price_is_excluded:
  "minPriceInput_value s = [] \<Longrightarrow> maxPriceInput_value s = [] \<Longrightarrow>
   min_bound s = Fin 0 \<and>
   (\<forall>a \<in> set (assets s). js_lt (current_price a) (Fin 0) \<longrightarrow>
      a \<notin> set (displayAssets (applyFiltersAndSort rt s)))"
proof -
  assume absent: "minPriceInput_value s = []" "maxPriceInput_value s = []"
  have below: "js_lt p (Fin 0) \<Longrightarrow> \<not> js_le (Fin 0) p" for p
    by (cases p) simp_all
  show ?thesis
    using below
    by (auto simp: set_displayAssets absent_bounds(1) [OF absent(1)]
          absent_bounds(2) [OF absent(2)] price_in_range_absent)
qed

theorem negative_price_is_excluded_witness:
  "minPriceInput_value (listing [coin ''a'' (Fin 5) (Fin 1), coin ''b'' (Fin (- 1)) (Fin 1)] [] [] Default) = [] \<and>
   maxPriceInput_value (listing [coin ''a'' (Fin 5) (Fin 1), coin ''b'' (Fin (- 1)) (Fin 1)] [] [] Default) = [] \<and>
   coin ''b'' (Fin (- 1)) (Fin 1) \<in> set (assets
     (listing [coin ''a'' (Fin 5) (Fin 1), coin ''b'' (Fin (- 1)) (Fin 1)] [] [] Default)) \<and>
   js_lt (current_price (coin ''b'' (Fin (- 1)) (Fin 1))) (Fin 0) \<and>
   coin ''b'' (Fin (- 1)) (Fin 1) \<notin> set (displayAssets (applyFiltersAndSort plain_runtime
     (listing [coin ''a'' (Fin 5) (Fin 1), coin ''b'' (Fin (- 1)) (Fin 1)] [] [] Default)))"
proof -
  let ?p = "listing [coin ''a'' (Fin 5) (Fin 1), coin ''b'' (Fin (- 1)) (Fin 1)] [] [] Default"
  have h: "minPriceInput_value ?p = []" "maxPriceInput_value ?p = []"
    by (simp_all add: listing_def)
  have base: "assets ?p = [coin ''a'' (Fin 5) (Fin 1), coin ''b'' (Fin (- 1)) (Fin 1)]"
    by (simp add: listing_def)
  have price: "current_price (coin ''b'' (Fin (- 1)) (Fin 1)) = Fin (- 1)"
    by (simp add: coin_def)
  show ?thesis
    using negative_price_is_excluded [OF h, of plain_runtime] h
    by (simp only: base) (simp add: price)
qed

end
